theory Spec2Isabelle
  imports Main "HOL-Library.Word"
begin

section \<open>Python: exceptions, outcomes, logging\<close>

text \<open>
  The plugin is Python on top of PyQt5. Every method of the three classes wraps its body
  in \<^verbatim>\<open>try: ... except Exception as e: self.logger.error(...)\<close>. An exception is a
  value of \<open>py_error\<close>; a method call ends in an \<open>outcome\<close>: it returns a value or
  raises, and in both cases leaves a state behind (what was mutated before a raise stays
  mutated). \<open>KeyboardInterrupt\<close> stands for the exceptions that derive from
  \<^verbatim>\<open>BaseException\<close> only, which \<^verbatim>\<open>except Exception\<close> does not catch.
\<close>

datatype py_error =
    NameError string
  | AttributeError string
  | TypeError
  | ValueError
  | KeyError string
  | OverflowError
  | OSError
  | RuntimeError
  | KeyboardInterrupt

fun is_Exception :: "py_error \<Rightarrow> bool" where
  "is_Exception KeyboardInterrupt = False"
| "is_Exception _ = True"

datatype ('s, 'a) outcome = Return 's 'a | Raise 's py_error

definition except_Exception ::
  "('s, 'a) outcome \<Rightarrow> ('s \<Rightarrow> py_error \<Rightarrow> ('s, 'a) outcome) \<Rightarrow> ('s, 'a) outcome" where
  "except_Exception body handler =
     (case body of
        Return s a \<Rightarrow> Return s a
      | Raise s e \<Rightarrow> if is_Exception e then handler s e else Raise s e)"

fun returns :: "('s, 'a) outcome \<Rightarrow> bool" where
  "returns (Return s a) = True"
| "returns (Raise s e) = False"

fun state_of :: "('s, 'a) outcome \<Rightarrow> 's" where
  "state_of (Return s a) = s"
| "state_of (Raise s e) = s"

fun value_of :: "('s, 'a) outcome \<Rightarrow> 'a option" where
  "value_of (Return s a) = Some a"
| "value_of (Raise s e) = None"

text \<open>Sequencing of two steps that may raise: the second runs only if the first returned.\<close>

definition and_then :: "py_error + 'a \<Rightarrow> ('a \<Rightarrow> py_error + 'b) \<Rightarrow> py_error + 'b" where
  "and_then r f = (case r of Inl e \<Rightarrow> Inl e | Inr v \<Rightarrow> f v)"

text \<open>
  A record of the logger: the level, the fixed part of the message, and for
  \<^verbatim>\<open>logger.error(f"...: {str(e)}")\<close> the exception that was formatted into it.
\<close>

datatype log_entry = LogInfo string | LogWarning string | LogError string py_error

section \<open>Qt values\<close>

text \<open>
  \<^verbatim>\<open>QRect\<close> stores two corners as C ints; \<^verbatim>\<open>QRect(left, top, width, height)\<close>
  sets \<open>x2 = left + width - 1\<close> and \<^verbatim>\<open>width()\<close> is \<open>x2 - x1 + 1\<close>, in 32-bit
  arithmetic. The accessors give Python the signed value.
\<close>

record QRect =
  qx1 :: "32 word"
  qy1 :: "32 word"
  qx2 :: "32 word"
  qy2 :: "32 word"

definition QRect_new :: "int \<Rightarrow> int \<Rightarrow> int \<Rightarrow> int \<Rightarrow> QRect" where
  "QRect_new l t w h =
     \<lparr>qx1 = word_of_int l, qy1 = word_of_int t,
      qx2 = word_of_int l + word_of_int w - 1,
      qy2 = word_of_int t + word_of_int h - 1\<rparr>"

definition QRect_x :: "QRect \<Rightarrow> int" where
  "QRect_x r = sint (qx1 r)"

definition QRect_y :: "QRect \<Rightarrow> int" where
  "QRect_y r = sint (qy1 r)"

definition QRect_width :: "QRect \<Rightarrow> int" where
  "QRect_width r = sint (qx2 r - qx1 r + 1)"

definition QRect_height :: "QRect \<Rightarrow> int" where
  "QRect_height r = sint (qy2 r - qy1 r + 1)"

type_synonym QPoint = "int \<times> int"
type_synonym QSize = "int \<times> int"

definition manhattanLength :: "QPoint \<Rightarrow> int" where
  "manhattanLength p = \<bar>fst p\<bar> + \<bar>snd p\<bar>"

section \<open>Python values\<close>

text \<open>
  The values that reach \<^verbatim>\<open>validateLayout\<close> and that \<^verbatim>\<open>json.load\<close> produces.
  A dict is an association list in insertion order. Floats are left out: this code never
  computes with one, and what PyQt does with a float where a C int is expected depends on
  the Python version.
\<close>

datatype pyval =
    PyNone
  | PyBool bool
  | PyInt int
  | PyStr string
  | PyList "pyval list"
  | PyDict "(pyval \<times> pyval) list"
  | PyQRect QRect

subsection \<open>\<^verbatim>\<open>str(n)\<close> and \<^verbatim>\<open>int(s)\<close>\<close>

definition digit_char :: "nat \<Rightarrow> char" where
  "digit_char d = ''0123456789'' ! d"

fun digits_of_nat :: "nat \<Rightarrow> string" where
  "digits_of_nat n =
     (if n < 10 then [digit_char n]
      else digits_of_nat (n div 10) @ [digit_char (n mod 10)])"

declare digits_of_nat.simps [simp del]

definition py_str_int :: "int \<Rightarrow> string" where
  "py_str_int n =
     (if n < 0 then CHR ''-'' # digits_of_nat (nat (- n)) else digits_of_nat (nat n))"

text \<open>
  \<^verbatim>\<open>int(s)\<close> in base 10: surrounding whitespace is stripped, one sign is allowed, and
  the digits may be grouped by single underscores. Strings are byte strings here, so
  only the ASCII whitespace and digits are recognised.
\<close>

definition is_space :: "char \<Rightarrow> bool" where
  "is_space c = (let k = (of_char c :: nat) in (9 \<le> k \<and> k \<le> 13) \<or> (28 \<le> k \<and> k \<le> 32))"

definition py_strip :: "string \<Rightarrow> string" where
  "py_strip s = rev (dropWhile is_space (rev (dropWhile is_space s)))"

definition digit_val :: "char \<Rightarrow> nat option" where
  "digit_val c =
     (let k = (of_char c :: nat) in if 48 \<le> k \<and> k \<le> 57 then Some (k - 48) else None)"

fun digits_value :: "nat \<Rightarrow> bool \<Rightarrow> string \<Rightarrow> nat option" where
  "digits_value acc after_digit [] = (if after_digit then Some acc else None)"
| "digits_value acc after_digit (c # cs) =
     (case digit_val c of
        Some d \<Rightarrow> digits_value (acc * 10 + d) True cs
      | None \<Rightarrow>
          if c = CHR ''_'' \<and> after_digit then digits_value acc False cs else None)"

definition py_int_str :: "string \<Rightarrow> py_error + int" where
  "py_int_str s =
     (case py_strip s of
        [] \<Rightarrow> Inl ValueError
      | c # cs \<Rightarrow>
          if c = CHR ''-'' then
            (case digits_value 0 False cs of
               None \<Rightarrow> Inl ValueError | Some n \<Rightarrow> Inr (- int n))
          else if c = CHR ''+'' then
            (case digits_value 0 False cs of
               None \<Rightarrow> Inl ValueError | Some n \<Rightarrow> Inr (int n))
          else
            (case digits_value 0 False (c # cs) of
               None \<Rightarrow> Inl ValueError | Some n \<Rightarrow> Inr (int n)))"

fun py_int :: "pyval \<Rightarrow> py_error + int" where
  "py_int (PyInt n) = Inr n"
| "py_int (PyBool b) = Inr (if b then 1 else 0)"
| "py_int (PyStr s) = py_int_str s"
| "py_int _ = Inl TypeError"

subsection \<open>Containers\<close>

text \<open>
  \<^verbatim>\<open>d[k] = v\<close>: an existing key keeps its place, a new key goes to the end. Wherever
  the code stores into a dict, all keys of that dict have one type (all \<^verbatim>\<open>str\<close> or
  all \<^verbatim>\<open>int\<close>), so Python's key equality is equality of the model.
\<close>

fun dict_setitem :: "('k \<times> 'v) list \<Rightarrow> 'k \<Rightarrow> 'v \<Rightarrow> ('k \<times> 'v) list" where
  "dict_setitem [] k v = [(k, v)]"
| "dict_setitem ((k', v') # d) k v =
     (if k' = k then (k', v) # d else (k', v') # dict_setitem d k v)"

fun dict_delitem :: "('k \<times> 'v) list \<Rightarrow> 'k \<Rightarrow> ('k \<times> 'v) list" where
  "dict_delitem [] k = []"
| "dict_delitem ((k', v') # d) k = (if k' = k then d else (k', v') # dict_delitem d k)"

text \<open>\<^verbatim>\<open>obj[key]\<close> for a \<^verbatim>\<open>str\<close> key.\<close>

fun py_getitem_str :: "pyval \<Rightarrow> string \<Rightarrow> py_error + pyval" where
  "py_getitem_str (PyDict d) key =
     (case map_of d (PyStr key) of None \<Rightarrow> Inl (KeyError key) | Some v \<Rightarrow> Inr v)"
| "py_getitem_str _ key = Inl TypeError"

fun py_str_contains :: "string \<Rightarrow> string \<Rightarrow> bool" where
  "py_str_contains sub [] = (sub = [])"
| "py_str_contains sub (c # cs) =
     (take (length sub) (c # cs) = sub \<or> py_str_contains sub cs)"

text \<open>\<^verbatim>\<open>key in obj\<close> for a \<^verbatim>\<open>str\<close> key: membership for a dict or a list, substring
  for a \<^verbatim>\<open>str\<close>, \<^verbatim>\<open>TypeError\<close> for the values that are no containers.\<close>

fun py_contains_str :: "string \<Rightarrow> pyval \<Rightarrow> py_error + bool" where
  "py_contains_str key (PyDict d) = Inr (PyStr key \<in> fst ` set d)"
| "py_contains_str key (PyList xs) = Inr (PyStr key \<in> set xs)"
| "py_contains_str key (PyStr s) = Inr (py_str_contains key s)"
| "py_contains_str key _ = Inl TypeError"

subsection \<open>PyQt: a Python value where Qt takes a C int\<close>

definition in_c_int :: "int \<Rightarrow> bool" where
  "in_c_int n = (- (2 ^ 31) \<le> n \<and> n < 2 ^ 31)"

fun as_c_int :: "pyval \<Rightarrow> py_error + int" where
  "as_c_int (PyInt n) = (if in_c_int n then Inr n else Inl OverflowError)"
| "as_c_int (PyBool b) = Inr (if b then 1 else 0)"
| "as_c_int _ = Inl TypeError"

definition PyQt_QRect :: "pyval \<Rightarrow> pyval \<Rightarrow> pyval \<Rightarrow> pyval \<Rightarrow> py_error + QRect" where
  "PyQt_QRect a b c d =
     and_then (as_c_int a) (\<lambda>l.
     and_then (as_c_int b) (\<lambda>t.
     and_then (as_c_int c) (\<lambda>w.
     and_then (as_c_int d) (\<lambda>h. Inr (QRect_new l t w h)))))"

section \<open>The panel widget's state\<close>

text \<open>
  What the code reads and writes of a \<^verbatim>\<open>DragDropPanelWidget\<close>: its identity as
  an object, the Qt properties \<^verbatim>\<open>geometry()\<close>, \<^verbatim>\<open>isVisible()\<close> and the style
  sheet, the attribute \<^verbatim>\<open>dragStartPosition\<close> (absent until the first left press),
  the signals it has emitted, the drag operations it has begun and what it has logged.
  \<open>DefaultStyle\<close> is the sheet of \<^verbatim>\<open>applyStyle\<close> (border \<^verbatim>\<open>1px solid #3a3a3a\<close>),
  \<open>HighlightStyle\<close> the sheet of \<^verbatim>\<open>highlightDropZone(True)\<close>
  (border \<^verbatim>\<open>2px solid #007acc\<close>).
\<close>

datatype style = DefaultStyle | HighlightStyle

datatype drop_action = IgnoreAction | CopyAction | MoveAction | LinkAction

datatype signal = panelMoved nat QPoint | panelResized nat QSize

record QMimeData =
  hasText :: bool
  mime_text :: string

record QDrag =
  drag_mimeData :: QMimeData
  pixmap_of :: nat
  pixmap_alpha :: nat
  hotSpot :: QPoint
  exec_action :: drop_action

record DragDropPanelWidget =
  wid :: nat
  geometry :: QRect
  visible :: bool
  styleSheet :: style
  dragStartPosition :: "QPoint option"
  emitted :: "signal list"
  drags :: "QDrag list"
  widget_log :: "log_entry list"

section \<open>\<^verbatim>\<open>PanelLayoutManager\<close>\<close>

text \<open>
  The manager's state is its \<^verbatim>\<open>config_path\<close> (\<^verbatim>\<open>None\<close> when it could not be
  resolved), its log, and the file system it works on. A file is unreadable, or holds
  text that \<^verbatim>\<open>json.load\<close> rejects, or holds a JSON document, kept as the Python
  value \<^verbatim>\<open>json.load\<close> returns for it. \<^verbatim>\<open>json.dump\<close> of a dict with
  \<^verbatim>\<open>str\<close> keys, \<^verbatim>\<open>int\<close> and \<^verbatim>\<open>bool\<close> leaves writes the document
  that loads as that very dict.
\<close>

datatype file_content = Unreadable | Malformed | Document pyval

record PanelLayoutManager =
  config_path :: "string option"
  files :: "string \<Rightarrow> file_content option"
  writable :: "string \<Rightarrow> bool"
  manager_log :: "log_entry list"

definition manager_logs :: "log_entry \<Rightarrow> PanelLayoutManager \<Rightarrow> PanelLayoutManager" where
  "manager_logs entry self = self\<lparr>manager_log := manager_log self @ [entry]\<rparr>"

definition layout_entry :: "DragDropPanelWidget \<Rightarrow> pyval" where
  "layout_entry panel =
     (let g = geometry panel in
      PyDict [(PyStr ''x'', PyInt (QRect_x g)),
              (PyStr ''y'', PyInt (QRect_y g)),
              (PyStr ''width'', PyInt (QRect_width g)),
              (PyStr ''height'', PyInt (QRect_height g)),
              (PyStr ''visible'', PyBool (visible panel))])"

text \<open>The loop of \<^verbatim>\<open>saveLayout\<close> over \<^verbatim>\<open>panel_columns.items()\<close>.\<close>

fun build_layout_data ::
  "(pyval \<times> pyval) list \<Rightarrow> (int \<times> DragDropPanelWidget) list \<Rightarrow> (pyval \<times> pyval) list" where
  "build_layout_data layout_data [] = layout_data"
| "build_layout_data layout_data ((column_id, panel) # rest) =
     build_layout_data
       (dict_setitem layout_data (PyStr (py_str_int column_id)) (layout_entry panel)) rest"

definition saveLayout ::
  "PanelLayoutManager \<Rightarrow> (int \<times> DragDropPanelWidget) list
     \<Rightarrow> (PanelLayoutManager, bool) outcome" where
  "saveLayout self panel_columns =
     except_Exception
       (case config_path self of
          None \<Rightarrow> Raise self ValueError
        | Some path \<Rightarrow>
            if path = [] then Raise self ValueError
            else
              let layout_data = build_layout_data [] panel_columns in
              if \<not> writable self path then Raise self OSError
              else
                Return
                  (manager_logs (LogInfo ''Layout saved successfully'')
                     (self\<lparr>files := (files self)(path \<mapsto> Document (PyDict layout_data))\<rparr>))
                  True)
       (\<lambda>s e. Return (manager_logs (LogError ''Error saving layout: '' e) s) False)"

text \<open>
  The loop of \<^verbatim>\<open>loadLayout\<close>. Python evaluates the right-hand side first
  (\<^verbatim>\<open>QRect(data['x'], data['y'], data['width'], data['height'])\<close>, then
  \<^verbatim>\<open>data['visible']\<close>), then the key \<^verbatim>\<open>int(column_id)\<close>, then stores.
\<close>

definition convert_entry :: "pyval \<Rightarrow> py_error + pyval" where
  "convert_entry data =
     and_then (py_getitem_str data ''x'') (\<lambda>vx.
     and_then (py_getitem_str data ''y'') (\<lambda>vy.
     and_then (py_getitem_str data ''width'') (\<lambda>vw.
     and_then (py_getitem_str data ''height'') (\<lambda>vh.
     and_then (PyQt_QRect vx vy vw vh) (\<lambda>rect.
     and_then (py_getitem_str data ''visible'') (\<lambda>vis.
       Inr (PyDict [(PyStr ''geometry'', PyQRect rect), (PyStr ''visible'', vis)])))))))"

fun convert_layout ::
  "(pyval \<times> pyval) list \<Rightarrow> (pyval \<times> pyval) list \<Rightarrow> py_error + (pyval \<times> pyval) list" where
  "convert_layout converted_layout [] = Inr converted_layout"
| "convert_layout converted_layout ((column_id, data) # rest) =
     and_then (convert_entry data) (\<lambda>entry.
     and_then (py_int column_id) (\<lambda>key.
       convert_layout (dict_setitem converted_layout (PyInt key) entry) rest))"

text \<open>\<^verbatim>\<open>layout_data.items()\<close>: only a dict has the method.\<close>

fun py_items :: "pyval \<Rightarrow> py_error + (pyval \<times> pyval) list" where
  "py_items (PyDict d) = Inr d"
| "py_items _ = Inl (AttributeError ''items'')"

text \<open>\<^verbatim>\<open>with open(path, 'r') as f: json.load(f)\<close>.\<close>

fun json_load :: "file_content option \<Rightarrow> py_error + pyval" where
  "json_load None = Inl OSError"
| "json_load (Some Unreadable) = Inl OSError"
| "json_load (Some Malformed) = Inl ValueError"
| "json_load (Some (Document v)) = Inr v"

definition loadLayout :: "PanelLayoutManager \<Rightarrow> (PanelLayoutManager, pyval) outcome" where
  "loadLayout self =
     except_Exception
       (case config_path self of
          None \<Rightarrow> Return (manager_logs (LogInfo ''No saved layout found, using default'') self) PyNone
        | Some path \<Rightarrow>
            if path = [] \<or> files self path = None then
              Return (manager_logs (LogInfo ''No saved layout found, using default'') self) PyNone
            else
              (case and_then (json_load (files self path)) (\<lambda>layout_data.
                    and_then (py_items layout_data) (convert_layout [])) of
                 Inl e \<Rightarrow> Raise self e
               | Inr converted_layout \<Rightarrow>
                   Return (manager_logs (LogInfo ''Layout loaded successfully'') self)
                     (PyDict converted_layout)))
       (\<lambda>s e. Return (manager_logs (LogError ''Error loading layout: '' e) s) PyNone)"

text \<open>
  \<^verbatim>\<open>validateLayout\<close>. \<^verbatim>\<open>isinstance(column_id, int)\<close> holds for a \<^verbatim>\<open>bool\<close>
  too. \<^verbatim>\<open>all(key in data for key in required_keys)\<close> stops at the first key that
  is missing; \<open>py_all_in\<close> takes the keys in the order the set is iterated in.
\<close>

fun isinstance_int :: "pyval \<Rightarrow> bool" where
  "isinstance_int (PyInt n) = True"
| "isinstance_int (PyBool b) = True"
| "isinstance_int _ = False"

fun isinstance_QRect :: "pyval \<Rightarrow> bool" where
  "isinstance_QRect (PyQRect r) = True"
| "isinstance_QRect _ = False"

fun isinstance_bool :: "pyval \<Rightarrow> bool" where
  "isinstance_bool (PyBool b) = True"
| "isinstance_bool _ = False"

fun py_all_in :: "string list \<Rightarrow> pyval \<Rightarrow> py_error + bool" where
  "py_all_in [] data = Inr True"
| "py_all_in (key # keys) data =
     and_then (py_contains_str key data) (\<lambda>present.
       if present then py_all_in keys data else Inr False)"

definition required_keys :: "string list" where
  "required_keys = [''geometry'', ''visible'']"

text \<open>One pass of the loop body: \<open>Inr False\<close> is \<^verbatim>\<open>return False\<close>, \<open>Inr True\<close> goes
  on to the next entry.\<close>

definition validate_entry :: "pyval \<Rightarrow> pyval \<Rightarrow> py_error + bool" where
  "validate_entry column_id data =
     (if \<not> isinstance_int column_id then Inr False
      else
        and_then (py_all_in required_keys data) (\<lambda>has_keys.
          if \<not> has_keys then Inr False
          else
            and_then (py_getitem_str data ''geometry'') (\<lambda>g.
              if \<not> isinstance_QRect g then Inr False
              else
                and_then (py_getitem_str data ''visible'') (\<lambda>v.
                  if \<not> isinstance_bool v then Inr False else Inr True))))"

fun validate_entries :: "(pyval \<times> pyval) list \<Rightarrow> py_error + bool" where
  "validate_entries [] = Inr True"
| "validate_entries ((column_id, data) # rest) =
     and_then (validate_entry column_id data) (\<lambda>ok.
       if ok then validate_entries rest else Inr False)"

definition validateLayout :: "PanelLayoutManager \<Rightarrow> pyval \<Rightarrow> (PanelLayoutManager, bool) outcome" where
  "validateLayout self layout_data =
     except_Exception
       (case layout_data of
          PyDict d \<Rightarrow>
            if length d > 8 then Return self False
            else (case validate_entries d of
                    Inl e \<Rightarrow> Raise self e
                  | Inr ok \<Rightarrow> Return self ok)
        | _ \<Rightarrow> Return self False)
       (\<lambda>s e. Return (manager_logs (LogError ''Error validating layout: '' e) s) False)"

section \<open>The host\<close>

text \<open>
  What the plugin takes from its surroundings: the names the host application has added
  to Python's builtins (a module that uses a name it has not imported finds it there or
  raises \<^verbatim>\<open>NameError\<close>), \<^verbatim>\<open>QApplication.startDragDistance()\<close>, the size of the
  active window's \<^verbatim>\<open>qwindow()\<close> (\<open>None\<close> without an active window), the
  geometry Qt gives a widget that was just constructed, and what constructing a panel
  widget does. \<open>construction_fault\<close> is the exception that
  \<^verbatim>\<open>from .drag_drop_panel_widget import DragDropPanelWidget\<close> followed by
  \<^verbatim>\<open>DragDropPanelWidget(parent=self.parent())\<close> raises, or \<open>None\<close> when the
  widget is constructed: \<^verbatim>\<open>QWidget.__init__\<close> raises \<^verbatim>\<open>TypeError\<close> for a parent
  that is a \<^verbatim>\<open>QObject\<close> but no \<^verbatim>\<open>QWidget\<close>, and the code that constructs the
  extension and chooses its parent is outside these files.
\<close>

record host =
  builtins :: "string list"
  startDragDistance :: int
  activeWindow :: "(int \<times> int) option"
  new_widget_geometry :: QRect
  construction_fault :: "py_error option"

text \<open>The names bound at module level by the imports and the class statement of
  \<^verbatim>\<open>drag_drop_panel_widget.py\<close> and of \<^verbatim>\<open>panel_manager_extension.py\<close>.\<close>

definition widget_module_names :: "string list" where
  "widget_module_names =
     [''QWidget'', ''QVBoxLayout'', ''QLabel'', ''QSizeGrip'',
      ''Qt'', ''QMimeData'', ''pyqtSignal'', ''QPoint'', ''QSize'',
      ''QDrag'', ''QPixmap'', ''QPainter'', ''QColor'', ''QPen'',
      ''logging'', ''DragDropPanelWidget'']"

definition extension_module_names :: "string list" where
  "extension_module_names =
     [''Extension'', ''QWidget'', ''QVBoxLayout'', ''QHBoxLayout'', ''QMenu'', ''QAction'',
      ''Qt'', ''pyqtSignal'', ''logging'', ''PanelManagerExtension'']"

definition lookup_name :: "host \<Rightarrow> string list \<Rightarrow> string \<Rightarrow> py_error + unit" where
  "lookup_name h module_names name =
     (if name \<in> set module_names \<or> name \<in> set (builtins h) then Inr ()
      else Inl (NameError name))"

section \<open>\<^verbatim>\<open>DragDropPanelWidget\<close>: the event handlers\<close>

datatype mouse_button = LeftButton | RightButton | MiddleButton

record QMouseEvent =
  button :: mouse_button
  buttons :: "mouse_button list"
  mouse_pos :: QPoint

text \<open>A drag-enter or drop event. \<^verbatim>\<open>acceptProposedAction()\<close> sets the drop action to
  the proposed one and accepts; \<^verbatim>\<open>ignore()\<close> clears the accept flag.\<close>

record QDropEvent =
  mimeData :: QMimeData
  drop_pos :: QPoint
  proposedAction :: drop_action
  dropAction :: drop_action
  accepted :: bool

definition acceptProposedAction :: "QDropEvent \<Rightarrow> QDropEvent" where
  "acceptProposedAction ev = ev\<lparr>dropAction := proposedAction ev, accepted := True\<rparr>"

definition ignore :: "QDropEvent \<Rightarrow> QDropEvent" where
  "ignore ev = ev\<lparr>accepted := False\<rparr>"

record QDragLeaveEvent =
  leave_accepted :: bool

definition widget_logs :: "log_entry \<Rightarrow> DragDropPanelWidget \<Rightarrow> DragDropPanelWidget" where
  "widget_logs entry self = self\<lparr>widget_log := widget_log self @ [entry]\<rparr>"

definition applyStyle :: "DragDropPanelWidget \<Rightarrow> (DragDropPanelWidget, unit) outcome" where
  "applyStyle self =
     except_Exception
       (Return (self\<lparr>styleSheet := DefaultStyle\<rparr>) ())
       (\<lambda>s e. Return (widget_logs (LogError ''Error applying style: '' e) s) ())"

definition highlightDropZone ::
  "bool \<Rightarrow> DragDropPanelWidget \<Rightarrow> (DragDropPanelWidget, unit) outcome" where
  "highlightDropZone highlight self =
     except_Exception
       (if highlight then Return (self\<lparr>styleSheet := HighlightStyle\<rparr>) ()
        else applyStyle self)
       (\<lambda>s e. Return (widget_logs (LogError ''Error highlighting drop zone: '' e) s) ())"

text \<open>
  Every call a handler makes into Qt (a method of the event, a constructor, the emission
  of a signal) may itself raise. Which calls do is a parameter of the handlers:
  \<open>qt name\<close> is the exception that the call written \<open>name\<close> in the source raises, or
  \<open>None\<close> when the call goes through. \<open>qt_calls qt names s rest\<close> makes the calls
  \<open>names\<close> in this order in the state \<open>s\<close>: the first one that raises ends the body
  there, otherwise the body goes on with \<open>rest\<close>. Writing the style sheet of the widget
  itself, all that \<^verbatim>\<open>applyStyle\<close> and \<^verbatim>\<open>highlightDropZone\<close> do, is taken to go
  through.
\<close>

type_synonym qt_faults = "string \<Rightarrow> py_error option"

definition no_faults :: qt_faults where
  "no_faults = (\<lambda>name. None)"

fun first_fault :: "qt_faults \<Rightarrow> string list \<Rightarrow> py_error option" where
  "first_fault qt [] = None"
| "first_fault qt (name # names) =
     (case qt name of Some e \<Rightarrow> Some e | None \<Rightarrow> first_fault qt names)"

declare first_fault.simps [simp del]

definition qt_calls ::
  "qt_faults \<Rightarrow> string list \<Rightarrow> 's \<Rightarrow> ('s, 'a) outcome \<Rightarrow> ('s, 'a) outcome" where
  "qt_calls qt names s rest =
     (case first_fault qt names of Some e \<Rightarrow> Raise s e | None \<Rightarrow> rest)"

text \<open>A handler body whose outcome \<^verbatim>\<open>except Exception\<close> turns into a return: it
  returns, or what it raises derives from \<^verbatim>\<open>Exception\<close>.\<close>

definition caught :: "('s, unit) outcome \<Rightarrow> bool" where
  "caught body = (case body of Return s a \<Rightarrow> True | Raise s e \<Rightarrow> is_Exception e)"

definition mousePressEvent ::
  "qt_faults \<Rightarrow> DragDropPanelWidget \<Rightarrow> QMouseEvent \<Rightarrow> (DragDropPanelWidget, unit) outcome" where
  "mousePressEvent qt self event =
     except_Exception
       (qt_calls qt [''event.button''] self
          (if button event = LeftButton then
             qt_calls qt [''event.pos''] self
               (Return (self\<lparr>dragStartPosition := Some (mouse_pos event)\<rparr>) ())
           else Return self ()))
       (\<lambda>s e. Return (widget_logs (LogError ''Error in mouse press event: '' e) s) ())"

text \<open>
  \<^verbatim>\<open>mouseMoveEvent\<close>. The comparison calls \<^verbatim>\<open>event.pos()\<close>, reads
  \<^verbatim>\<open>self.dragStartPosition\<close> (an \<^verbatim>\<open>AttributeError\<close> before the first left press),
  subtracts and takes the Manhattan length, then looks up the global name
  \<^verbatim>\<open>QApplication\<close>. The drag it then builds carries the text \<^verbatim>\<open>"panel"\<close>, a pixmap
  rendered from the widget and multiplied by the alpha 127 of 255
  (\<^verbatim>\<open>CompositionMode_DestinationIn\<close> with \<^verbatim>\<open>QColor(0, 0, 0, 127)\<close>), and is executed
  with \<^verbatim>\<open>Qt.MoveAction\<close>; \<open>drag_calls\<close> are the Qt calls of these lines, in order.
\<close>

definition begin_drag :: "DragDropPanelWidget \<Rightarrow> QMouseEvent \<Rightarrow> QDrag" where
  "begin_drag self event =
     \<lparr>drag_mimeData = \<lparr>hasText = True, mime_text = ''panel''\<rparr>,
      pixmap_of = wid self, pixmap_alpha = 127,
      hotSpot = mouse_pos event, exec_action = MoveAction\<rparr>"

definition drag_calls :: "string list" where
  "drag_calls =
     [''QDrag'', ''QMimeData'', ''QMimeData.setText'', ''QDrag.setMimeData'',
      ''self.size'', ''QPixmap'', ''self.render'',
      ''QPainter'', ''QPainter.setCompositionMode'', ''QPixmap.rect'', ''QColor'',
      ''QPainter.fillRect'', ''QPainter.end'',
      ''QDrag.setPixmap'', ''event.pos'', ''QDrag.setHotSpot'', ''QDrag.exec_'']"

definition mouseMoveEvent ::
  "qt_faults \<Rightarrow> host \<Rightarrow> DragDropPanelWidget \<Rightarrow> QMouseEvent
     \<Rightarrow> (DragDropPanelWidget, unit) outcome" where
  "mouseMoveEvent qt h self event =
     except_Exception
       (qt_calls qt [''event.buttons''] self
          (if LeftButton \<notin> set (buttons event) then Return self ()
           else
             qt_calls qt [''event.pos''] self
               (case dragStartPosition self of
                  None \<Rightarrow> Raise self (AttributeError ''dragStartPosition'')
                | Some start \<Rightarrow>
                    qt_calls qt [''QPoint.__sub__'', ''QPoint.manhattanLength''] self
                      (let moved = manhattanLength
                             (fst (mouse_pos event) - fst start, snd (mouse_pos event) - snd start)
                       in (case lookup_name h widget_module_names ''QApplication'' of
                             Inl e \<Rightarrow> Raise self e
                           | Inr u \<Rightarrow>
                               qt_calls qt [''QApplication.startDragDistance''] self
                                 (if moved < startDragDistance h then Return self ()
                                  else
                                    qt_calls qt drag_calls self
                                      (Return
                                         (self\<lparr>drags := drags self @ [begin_drag self event]\<rparr>)
                                         ())))))))
       (\<lambda>s e. Return (widget_logs (LogError ''Error in mouse move event: '' e) s) ())"

text \<open>
  The drag and drop handlers change the widget and the event they are given.
  \<^verbatim>\<open>event.mimeData().hasText() and event.mimeData().text() == "panel"\<close> calls
  \<^verbatim>\<open>text()\<close> only when \<^verbatim>\<open>hasText()\<close> is true.
\<close>

definition dragEnterEvent ::
  "qt_faults \<Rightarrow> DragDropPanelWidget \<Rightarrow> QDropEvent
     \<Rightarrow> (DragDropPanelWidget \<times> QDropEvent, unit) outcome" where
  "dragEnterEvent qt self event =
     except_Exception
       (qt_calls qt [''event.mimeData'', ''QMimeData.hasText''] (self, event)
          (if hasText (mimeData event) then
             qt_calls qt [''QMimeData.text''] (self, event)
               (if mime_text (mimeData event) = ''panel'' then
                  qt_calls qt [''event.acceptProposedAction''] (self, event)
                    (case highlightDropZone True self of
                       Return s u \<Rightarrow> Return (s, acceptProposedAction event) ()
                     | Raise s e \<Rightarrow> Raise (s, acceptProposedAction event) e)
                else
                  qt_calls qt [''event.ignore''] (self, event) (Return (self, ignore event) ()))
           else qt_calls qt [''event.ignore''] (self, event) (Return (self, ignore event) ())))
       (\<lambda>s e. Return (widget_logs (LogError ''Error in drag enter event: '' e) (fst s), snd s) ())"

definition dragLeaveEvent ::
  "qt_faults \<Rightarrow> DragDropPanelWidget \<Rightarrow> QDragLeaveEvent
     \<Rightarrow> (DragDropPanelWidget \<times> QDragLeaveEvent, unit) outcome" where
  "dragLeaveEvent qt self event =
     except_Exception
       (case highlightDropZone False self of
          Raise s e \<Rightarrow> Raise (s, event) e
        | Return s u \<Rightarrow>
            qt_calls qt [''event.accept''] (s, event)
              (Return (s, event\<lparr>leave_accepted := True\<rparr>) ()))
       (\<lambda>s e. Return (widget_logs (LogError ''Error in drag leave event: '' e) (fst s), snd s) ())"

definition dropEvent ::
  "qt_faults \<Rightarrow> DragDropPanelWidget \<Rightarrow> QDropEvent
     \<Rightarrow> (DragDropPanelWidget \<times> QDropEvent, unit) outcome" where
  "dropEvent qt self event =
     except_Exception
       (case highlightDropZone False self of
          Raise s e \<Rightarrow> Raise (s, event) e
        | Return s u \<Rightarrow>
            qt_calls qt [''event.mimeData'', ''QMimeData.hasText''] (s, event)
              (if hasText (mimeData event) then
                 qt_calls qt [''QMimeData.text''] (s, event)
                   (if mime_text (mimeData event) = ''panel'' then
                      qt_calls qt [''event.pos'', ''panelMoved.emit''] (s, event)
                        (qt_calls qt [''event.acceptProposedAction'']
                           (s\<lparr>emitted := emitted s @ [panelMoved (wid s) (drop_pos event)]\<rparr>,
                            event)
                           (Return
                              (s\<lparr>emitted := emitted s @ [panelMoved (wid s) (drop_pos event)]\<rparr>,
                               acceptProposedAction event) ()))
                    else
                      qt_calls qt [''event.ignore''] (s, event) (Return (s, ignore event) ()))
               else qt_calls qt [''event.ignore''] (s, event) (Return (s, ignore event) ())))
       (\<lambda>s e. Return (widget_logs (LogError ''Error in drop event: '' e) (fst s), snd s) ())"

definition resizeEvent ::
  "qt_faults \<Rightarrow> DragDropPanelWidget \<Rightarrow> QSize \<Rightarrow> (DragDropPanelWidget, unit) outcome" where
  "resizeEvent qt self new_size =
     except_Exception
       (qt_calls qt [''QWidget.resizeEvent'', ''event.size'', ''panelResized.emit''] self
          (Return (self\<lparr>emitted := emitted self @ [panelResized (wid self) new_size]\<rparr>) ()))
       (\<lambda>s e. Return (widget_logs (LogError ''Error in resize event: '' e) s) ())"

section \<open>\<^verbatim>\<open>PanelManagerExtension\<close>\<close>

text \<open>
  The extension owns \<^verbatim>\<open>panel_columns\<close>, a dict from column id to widget. Widgets are
  objects: \<open>created\<close> counts the widgets constructed so far and gives the next one its
  identity, \<open>deleted\<close> lists the widgets \<^verbatim>\<open>deleteLater()\<close> was called on.
\<close>

record PanelManagerExtension =
  panel_columns :: "(int \<times> DragDropPanelWidget) list"
  created :: nat
  deleted :: "nat list"
  extension_log :: "log_entry list"

definition extension_logs :: "log_entry \<Rightarrow> PanelManagerExtension \<Rightarrow> PanelManagerExtension" where
  "extension_logs entry self = self\<lparr>extension_log := extension_log self @ [entry]\<rparr>"

text \<open>The widget that \<^verbatim>\<open>DragDropPanelWidget(parent=self.parent())\<close> gives when it
  does not raise: \<^verbatim>\<open>initUI\<close> applies the default style; the widget is not shown and
  has no \<^verbatim>\<open>dragStartPosition\<close> yet.\<close>

definition new_DragDropPanelWidget :: "host \<Rightarrow> nat \<Rightarrow> DragDropPanelWidget" where
  "new_DragDropPanelWidget h n =
     \<lparr>wid = n, geometry = new_widget_geometry h, visible = False, styleSheet = DefaultStyle,
      dragStartPosition = None, emitted = [], drags = [], widget_log = []\<rparr>"

text \<open>
  \<^verbatim>\<open>column.setGeometry(x, y, w, h)\<close>: PyQt refuses an argument outside the C int
  range; Qt keeps the size between the widget's minimum size (\<^verbatim>\<open>setMinimumSize(100, 100)\<close>
  in \<^verbatim>\<open>initUI\<close>) and the default maximum size 16777215.
\<close>

definition setGeometry ::
  "int \<Rightarrow> int \<Rightarrow> int \<Rightarrow> int \<Rightarrow> DragDropPanelWidget \<Rightarrow> py_error + DragDropPanelWidget" where
  "setGeometry x y w h self =
     (if in_c_int x \<and> in_c_int y \<and> in_c_int w \<and> in_c_int h then
        Inr (self\<lparr>geometry :=
               QRect_new x y (max 100 (min w 16777215)) (max 100 (min h 16777215))\<rparr>)
      else Inl OverflowError)"

text \<open>The loop of \<^verbatim>\<open>updateColumnPositions\<close>: the columns positioned before a raise
  stay positioned.\<close>

fun position_columns ::
  "int \<Rightarrow> int \<Rightarrow> (int \<times> DragDropPanelWidget) list
     \<Rightarrow> (int \<times> DragDropPanelWidget) list \<times> py_error option" where
  "position_columns column_width height [] = ([], None)"
| "position_columns column_width height ((idx, column) # rest) =
     (case setGeometry ((idx - 1) * column_width) 0 column_width height column of
        Inl e \<Rightarrow> ((idx, column) # rest, Some e)
      | Inr column' \<Rightarrow>
          (case position_columns column_width height rest of
             (rest', r) \<Rightarrow> ((idx, column') # rest', r)))"

definition updateColumnPositions ::
  "host \<Rightarrow> PanelManagerExtension \<Rightarrow> (PanelManagerExtension, unit) outcome" where
  "updateColumnPositions h self =
     except_Exception
       (case lookup_name h extension_module_names ''Krita'' of
          Inl e \<Rightarrow> Raise self e
        | Inr u \<Rightarrow>
            (case activeWindow h of
               None \<Rightarrow> Return self ()
             | Some (screen_width, screen_height) \<Rightarrow>
                 let column_width = screen_width div max (int (length (panel_columns self))) 1
                 in (case position_columns column_width screen_height (panel_columns self) of
                       (columns, None) \<Rightarrow> Return (self\<lparr>panel_columns := columns\<rparr>) ()
                     | (columns, Some e) \<Rightarrow> Raise (self\<lparr>panel_columns := columns\<rparr>) e)))
       (\<lambda>s e. Return (extension_logs (LogError ''Error updating column positions: '' e) s) ())"

definition addPanelColumn ::
  "host \<Rightarrow> PanelManagerExtension \<Rightarrow> (PanelManagerExtension, bool) outcome" where
  "addPanelColumn h self =
     except_Exception
       (if length (panel_columns self) \<ge> 8 then
          Return (extension_logs (LogWarning ''Maximum number of panel columns (8) reached'') self)
            False
        else
          let column_id = int (length (panel_columns self)) + 1
          in (case construction_fault h of
                Some e \<Rightarrow> Raise self e
              | None \<Rightarrow>
                  let new_column = new_DragDropPanelWidget h (created self);
                      self1 = self\<lparr>panel_columns :=
                                    dict_setitem (panel_columns self) column_id new_column,
                                  created := Suc (created self)\<rparr>
                  in (case updateColumnPositions h self1 of
                        Raise s e \<Rightarrow> Raise s e
                      | Return s u \<Rightarrow>
                          Return
                            (extension_logs
                               (LogInfo (''Added new panel column '' @ py_str_int column_id)) s)
                            True)))
       (\<lambda>s e. Return (extension_logs (LogError ''Error adding panel column: '' e) s) False)"

text \<open>\<^verbatim>\<open>max(keys)\<close>: \<^verbatim>\<open>ValueError\<close> on an empty sequence.\<close>

fun py_max :: "int list \<Rightarrow> py_error + int" where
  "py_max [] = Inl ValueError"
| "py_max (k # ks) = Inr (foldl max k ks)"

text \<open>\<^verbatim>\<open>removePanelColumn(column_id=None)\<close>: \<open>None\<close> is the call without an id.\<close>

definition removePanelColumn ::
  "host \<Rightarrow> PanelManagerExtension \<Rightarrow> int option \<Rightarrow> (PanelManagerExtension, bool) outcome" where
  "removePanelColumn h self column_id_arg =
     except_Exception
       (if panel_columns self = [] then
          Return (extension_logs (LogWarning ''No panel columns to remove'') self) False
        else
          (case (case column_id_arg of
                   None \<Rightarrow> py_max (map fst (panel_columns self))
                 | Some k \<Rightarrow> Inr k) of
             Inl e \<Rightarrow> Raise self e
           | Inr column_id \<Rightarrow>
               (case map_of (panel_columns self) column_id of
                  Some column \<Rightarrow>
                    let self1 = self\<lparr>panel_columns := dict_delitem (panel_columns self) column_id,
                                    deleted := deleted self @ [wid column]\<rparr>
                    in (case updateColumnPositions h self1 of
                          Raise s e \<Rightarrow> Raise s e
                        | Return s u \<Rightarrow>
                            Return
                              (extension_logs
                                 (LogInfo (''Removed panel column '' @ py_str_int column_id)) s)
                              True)
                | None \<Rightarrow>
                    Return
                      (extension_logs
                         (LogWarning (''Panel column '' @ py_str_int column_id @ '' not found''))
                         self)
                      False)))
       (\<lambda>s e. Return (extension_logs (LogError ''Error removing panel column: '' e) s) False)"

text \<open>A number of \<^verbatim>\<open>addPanelColumn\<close> calls in a row, with what each one returned.\<close>

fun addPanelColumn_times ::
  "host \<Rightarrow> nat \<Rightarrow> PanelManagerExtension \<Rightarrow> PanelManagerExtension \<times> bool option list" where
  "addPanelColumn_times h 0 self = (self, [])"
| "addPanelColumn_times h (Suc n) self =
     (case addPanelColumn_times h n self of
        (s, results) \<Rightarrow>
          (state_of (addPanelColumn h s), results @ [value_of (addPanelColumn h s)]))"

text \<open>The column ids with the identity of the widget each one holds.\<close>

definition widget_ids :: "(int \<times> DragDropPanelWidget) list \<Rightarrow> (int \<times> nat) list" where
  "widget_ids columns = map (\<lambda>(column_id, w). (column_id, wid w)) columns"

section \<open>Snapshots: what the statements speak of\<close>

text \<open>
  The mapping a caller expects back from \<^verbatim>\<open>loadLayout\<close> after saving live panels:
  each column id with the panel's geometry and visibility.
\<close>

definition snapshot_entry :: "DragDropPanelWidget \<Rightarrow> pyval" where
  "snapshot_entry panel =
     PyDict [(PyStr ''geometry'', PyQRect (geometry panel)),
             (PyStr ''visible'', PyBool (visible panel))]"

definition snapshot :: "(int \<times> DragDropPanelWidget) list \<Rightarrow> pyval" where
  "snapshot columns =
     PyDict (map (\<lambda>(column_id, panel). (PyInt column_id, snapshot_entry panel)) columns)"

text \<open>
  The snapshot invariant in the specification's words: at most 8 entries, integer keys,
  every entry with a valid geometry (non-negative width and height) and a boolean
  visibility.
\<close>

fun entry_geometry :: "pyval \<Rightarrow> QRect option" where
  "entry_geometry (PyDict kvs) =
     (case map_of kvs (PyStr ''geometry'') of Some (PyQRect r) \<Rightarrow> Some r | _ \<Rightarrow> None)"
| "entry_geometry _ = None"

fun entry_visibility :: "pyval \<Rightarrow> pyval option" where
  "entry_visibility (PyDict kvs) = map_of kvs (PyStr ''visible'')"
| "entry_visibility _ = None"

definition has_boolean_visibility :: "pyval \<Rightarrow> bool" where
  "has_boolean_visibility data =
     (case entry_visibility data of Some (PyBool b) \<Rightarrow> True | _ \<Rightarrow> False)"

definition has_valid_geometry :: "pyval \<Rightarrow> bool" where
  "has_valid_geometry data =
     (case entry_geometry data of
        Some r \<Rightarrow> 0 \<le> QRect_width r \<and> 0 \<le> QRect_height r
      | None \<Rightarrow> False)"

fun is_PyInt :: "pyval \<Rightarrow> bool" where
  "is_PyInt (PyInt n) = True"
| "is_PyInt _ = False"

definition snapshot_invariant :: "pyval \<Rightarrow> bool" where
  "snapshot_invariant v =
     (case v of
        PyDict d \<Rightarrow>
          length d \<le> 8 \<and>
          list_all (\<lambda>(k, data). is_PyInt k \<and> has_valid_geometry data \<and> has_boolean_visibility data) d
      | _ \<Rightarrow> False)"

text \<open>The shape of an entry \<^verbatim>\<open>loadLayout\<close> builds: an integer key, a \<^verbatim>\<open>QRect\<close>
  under \<^verbatim>\<open>'geometry'\<close> and some value under \<^verbatim>\<open>'visible'\<close>.\<close>

definition loaded_entry :: "pyval \<times> pyval \<Rightarrow> bool" where
  "loaded_entry kv =
     (is_PyInt (fst kv) \<and> entry_geometry (snd kv) \<noteq> None \<and> entry_visibility (snd kv) \<noteq> None)"

text \<open>What \<^verbatim>\<open>validateLayout\<close> asks of an entry: a key that is an \<^verbatim>\<open>int\<close>
  (or a \<^verbatim>\<open>bool\<close>), a \<^verbatim>\<open>QRect\<close> under \<^verbatim>\<open>'geometry'\<close> and a \<^verbatim>\<open>bool\<close>
  under \<^verbatim>\<open>'visible'\<close>.\<close>

definition well_typed_entry :: "pyval \<times> pyval \<Rightarrow> bool" where
  "well_typed_entry kv =
     (isinstance_int (fst kv) \<and> entry_geometry (snd kv) \<noteq> None \<and> has_boolean_visibility (snd kv))"

text \<open>The file \<^verbatim>\<open>loadLayout\<close> reads: none without a config path or without a
  file at that path.\<close>

definition saved_record :: "PanelLayoutManager \<Rightarrow> file_content option" where
  "saved_record self =
     (case config_path self of
        None \<Rightarrow> None
      | Some path \<Rightarrow> if path = [] then None else files self path)"

section \<open>Example states\<close>

definition example_panel :: DragDropPanelWidget where
  "example_panel =
     \<lparr>wid = 0, geometry = QRect_new 0 0 200 600, visible = True, styleSheet = DefaultStyle,
      dragStartPosition = None, emitted = [], drags = [], widget_log = []\<rparr>"

definition example_manager :: PanelLayoutManager where
  "example_manager =
     \<lparr>config_path = Some ''panel_layout.json'', files = Map.empty,
      writable = (\<lambda>path. True), manager_log = []\<rparr>"

definition example_saved :: pyval where
  "example_saved =
     PyDict [(PyStr ''1'',
        PyDict [(PyStr ''x'', PyInt 0), (PyStr ''y'', PyInt 0), (PyStr ''width'', PyInt 200),
                (PyStr ''height'', PyInt 600), (PyStr ''visible'', PyBool True)])]"

definition manager_with :: "file_content \<Rightarrow> PanelLayoutManager" where
  "manager_with content =
     \<lparr>config_path = Some ''panel_layout.json'',
      files = [''panel_layout.json'' \<mapsto> content],
      writable = (\<lambda>path. True), manager_log = []\<rparr>"

text \<open>A record that parses but describes no valid snapshot: a negative width and a
  visibility that is a string.\<close>

definition odd_record :: pyval where
  "odd_record =
     PyDict [(PyStr ''1'',
        PyDict [(PyStr ''x'', PyInt 0), (PyStr ''y'', PyInt 0), (PyStr ''width'', PyInt (- 5)),
                (PyStr ''height'', PyInt 10), (PyStr ''visible'', PyStr ''yes'')])]"

definition negative_width_layout :: pyval where
  "negative_width_layout =
     PyDict [(PyInt 1,
        PyDict [(PyStr ''geometry'', PyQRect (QRect_new 0 0 (- 5) 10)),
                (PyStr ''visible'', PyBool True)])]"

definition string_visibility_layout :: pyval where
  "string_visibility_layout =
     PyDict [(PyInt 1,
        PyDict [(PyStr ''geometry'', PyQRect (QRect_new 0 0 200 600)),
                (PyStr ''visible'', PyStr ''yes'')])]"

text \<open>A host that has bound \<^verbatim>\<open>Krita\<close> in the builtins, with a 1920 by 1080 window
  and a drag distance of 10 pixels, in which panel widgets can be constructed; and the
  same host with an extension whose parent is no widget.\<close>

definition krita_host :: host where
  "krita_host =
     \<lparr>builtins = [''Krita'', ''Application'', ''Scripter'', ''i18n''],
      startDragDistance = 10, activeWindow = Some (1920, 1080),
      new_widget_geometry = QRect_new 0 0 100 100, construction_fault = None\<rparr>"

definition object_parent_host :: host where
  "object_parent_host = krita_host\<lparr>construction_fault := Some TypeError\<rparr>"

text \<open>Qt calls of which every one raises \<^verbatim>\<open>RuntimeError\<close>.\<close>

definition all_calls_raise :: qt_faults where
  "all_calls_raise = (\<lambda>name. Some RuntimeError)"

definition pressed_panel :: DragDropPanelWidget where
  "pressed_panel = example_panel\<lparr>dragStartPosition := Some (0, 0)\<rparr>"

definition far_move :: QMouseEvent where
  "far_move = \<lparr>button = LeftButton, buttons = [LeftButton], mouse_pos = (50, 0)\<rparr>"

definition panel_drop :: QDropEvent where
  "panel_drop =
     \<lparr>mimeData = \<lparr>hasText = True, mime_text = ''panel''\<rparr>, drop_pos = (5, 5),
      proposedAction = MoveAction, dropAction = MoveAction, accepted = False\<rparr>"

definition file_drop :: QDropEvent where
  "file_drop =
     \<lparr>mimeData = \<lparr>hasText = True, mime_text = ''file.kra''\<rparr>, drop_pos = (5, 5),
      proposedAction = CopyAction, dropAction = CopyAction, accepted = True\<rparr>"

definition empty_extension :: PanelManagerExtension where
  "empty_extension = \<lparr>panel_columns = [], created = 0, deleted = [], extension_log = []\<rparr>"

definition column :: "nat \<Rightarrow> DragDropPanelWidget" where
  "column n = example_panel\<lparr>wid := n\<rparr>"

definition gap_extension :: PanelManagerExtension where
  "gap_extension =
     \<lparr>panel_columns = [(1, column 0), (2, column 1), (3, column 2)], created = 3,
      deleted = [], extension_log = []\<rparr>"

definition nine_columns :: pyval where
  "nine_columns = PyDict (map (\<lambda>k. (PyInt k, snapshot_entry example_panel)) [1, 2, 3, 4, 5, 6, 7, 8, 9])"

definition highlighted_panel :: DragDropPanelWidget where
  "highlighted_panel = example_panel\<lparr>styleSheet := HighlightStyle\<rparr>"

definition no_text_drag :: QDropEvent where
  "no_text_drag =
     \<lparr>mimeData = \<lparr>hasText = False, mime_text = ''''\<rparr>, drop_pos = (5, 5),
      proposedAction = CopyAction, dropAction = CopyAction, accepted = True\<rparr>"

section \<open>\<^verbatim>\<open>int(str(n))\<close> is \<open>n\<close>\<close>

lemma digit_cases:
  "d < (10::nat) \<Longrightarrow>
     d = 0 \<or> d = 1 \<or> d = 2 \<or> d = 3 \<or> d = 4 \<or> d = 5 \<or> d = 6 \<or> d = 7 \<or> d = 8 \<or> d = 9"
  by arith

lemma digit_val_digit_char: "d < 10 \<Longrightarrow> digit_val (digit_char d) = Some d"
  by (drule digit_cases) (auto simp add: digit_val_def digit_char_def)

lemma not_space_digit_char: "d < 10 \<Longrightarrow> \<not> is_space (digit_char d)"
  by (drule digit_cases) (auto simp add: is_space_def digit_char_def)

lemma digit_char_not_sign: "d < 10 \<Longrightarrow> digit_char d \<noteq> CHR ''-'' \<and> digit_char d \<noteq> CHR ''+''"
  by (drule digit_cases) (auto simp add: digit_char_def)

lemma digits_value_digits_of_nat:
  "digits_value 0 p (digits_of_nat n @ cs) = digits_value n True cs"
proof (induction n arbitrary: p cs rule: digits_of_nat.induct)
  case (1 n)
  show ?case
  proof (cases "n < 10")
    case True
    then show ?thesis
      by (simp add: digits_of_nat.simps [of n] digit_val_digit_char)
  next
    case False
    then have "digits_value 0 p (digits_of_nat n @ cs)
        = digits_value (n div 10) True (digit_char (n mod 10) # cs)"
      using "1.IH" [of p "digit_char (n mod 10) # cs"]
      by (simp add: digits_of_nat.simps [of n])
    also have "\<dots> = digits_value n True cs"
      by (simp add: digit_val_digit_char)
    finally show ?thesis .
  qed
qed

lemma digits_of_nat_hd: "\<exists>d cs. d < 10 \<and> digits_of_nat n = digit_char d # cs"
proof (induction n rule: digits_of_nat.induct)
  case (1 n)
  show ?case
  proof (cases "n < 10")
    case True
    then show ?thesis by (auto simp add: digits_of_nat.simps [of n])
  next
    case False
    with "1.IH" obtain d cs where "d < 10" "digits_of_nat (n div 10) = digit_char d # cs"
      by blast
    with False show ?thesis by (auto simp add: digits_of_nat.simps [of n])
  qed
qed

lemma digits_of_nat_last: "\<exists>d cs. d < 10 \<and> digits_of_nat n = cs @ [digit_char d]"
proof (cases "n < 10")
  case True
  then have "n < 10 \<and> digits_of_nat n = [] @ [digit_char n]"
    by (simp add: digits_of_nat.simps [of n])
  then show ?thesis by blast
next
  case False
  then have "n mod 10 < 10 \<and> digits_of_nat n = digits_of_nat (n div 10) @ [digit_char (n mod 10)]"
    by (simp add: digits_of_nat.simps [of n])
  then show ?thesis by blast
qed

lemma py_strip_digits: "py_strip (digits_of_nat n) = digits_of_nat n"
proof -
  obtain d cs where hd: "d < 10" "digits_of_nat n = digit_char d # cs"
    using digits_of_nat_hd by blast
  obtain d' cs' where lst: "d' < 10" "digits_of_nat n = cs' @ [digit_char d']"
    using digits_of_nat_last by blast
  have "dropWhile is_space (digits_of_nat n) = digits_of_nat n"
    using hd by (simp add: not_space_digit_char)
  moreover have "dropWhile is_space (rev (digits_of_nat n)) = rev (digits_of_nat n)"
    using lst by (simp add: not_space_digit_char)
  ultimately show ?thesis by (simp add: py_strip_def)
qed

lemma py_strip_minus_digits:
  "py_strip (CHR ''-'' # digits_of_nat n) = CHR ''-'' # digits_of_nat n"
proof -
  obtain d' cs' where lst: "d' < 10" "digits_of_nat n = cs' @ [digit_char d']"
    using digits_of_nat_last by blast
  have "dropWhile is_space (CHR ''-'' # digits_of_nat n) = CHR ''-'' # digits_of_nat n"
    by (simp add: is_space_def)
  moreover have "dropWhile is_space (rev (CHR ''-'' # digits_of_nat n)) = rev (CHR ''-'' # digits_of_nat n)"
    using lst by (simp add: not_space_digit_char)
  ultimately show ?thesis by (simp add: py_strip_def)
qed

lemma digits_value_whole: "digits_value 0 False (digits_of_nat n) = Some n"
  using digits_value_digits_of_nat [of False n "[]"] by simp

lemma py_int_str_py_str_int: "py_int_str (py_str_int n) = Inr n"
proof (cases "n < 0")
  case True
  then show ?thesis
    by (simp add: py_int_str_def py_str_int_def py_strip_minus_digits digits_value_whole)
next
  case False
  obtain d cs where hd: "d < 10" "digits_of_nat (nat n) = digit_char d # cs"
    using digits_of_nat_hd by blast
  have val: "digits_value 0 False (digit_char d # cs) = Some (nat n)"
    using digits_value_whole [of "nat n"] hd by simp
  have "py_strip (py_str_int n) = digit_char d # cs"
    using False hd py_strip_digits [of "nat n"] by (simp add: py_str_int_def)
  then have "py_int_str (py_str_int n) = Inr (int (nat n))"
    using digit_char_not_sign [OF hd(1)] val
    by (simp only: py_int_str_def list.case if_False option.case)
  with False show ?thesis by simp
qed

lemma py_str_int_inj:
  assumes "py_str_int a = py_str_int b"
  shows "a = b"
proof -
  have "(Inr a :: py_error + int) = py_int_str (py_str_int a)"
    by (simp only: py_int_str_py_str_int)
  also have "\<dots> = py_int_str (py_str_int b)"
    by (simp only: assms)
  also have "\<dots> = Inr b"
    by (simp only: py_int_str_py_str_int)
  finally show ?thesis by simp
qed

section \<open>Saving and loading a layout\<close>

lemma in_c_int_sint: "in_c_int (sint (w :: 32 word))"
  using sint_ge [of w] sint_lt [of w] by (simp add: in_c_int_def)

lemma QRect_new_accessors:
  "QRect_new (QRect_x r) (QRect_y r) (QRect_width r) (QRect_height r) = r"
  by (simp add: QRect_new_def QRect_x_def QRect_y_def QRect_width_def QRect_height_def)

lemma convert_entry_layout_entry: "convert_entry (layout_entry panel) = Inr (snapshot_entry panel)"
  by (simp add: convert_entry_def layout_entry_def snapshot_entry_def and_then_def PyQt_QRect_def
      Let_def QRect_x_def QRect_y_def QRect_width_def QRect_height_def in_c_int_sint QRect_new_def)

lemma dict_setitem_fresh: "k \<notin> fst ` set d \<Longrightarrow> dict_setitem d k v = d @ [(k, v)]"
  by (induction d) auto

lemma build_layout_data_distinct:
  "distinct (map fst cols) \<Longrightarrow> \<forall>k \<in> fst ` set cols. PyStr (py_str_int k) \<notin> fst ` set acc \<Longrightarrow>
   build_layout_data acc cols =
     acc @ map (\<lambda>(column_id, panel). (PyStr (py_str_int column_id), layout_entry panel)) cols"
proof (induction cols arbitrary: acc)
  case Nil
  then show ?case by simp
next
  case (Cons c cols)
  obtain k p where c: "c = (k, p)" by (cases c)
  have fresh: "PyStr (py_str_int k) \<notin> fst ` set acc"
    using Cons.prems(2) c by simp
  let ?acc = "acc @ [(PyStr (py_str_int k), layout_entry p)]"
  have "\<forall>k' \<in> fst ` set cols. PyStr (py_str_int k') \<notin> fst ` set ?acc"
  proof
    fix k' assume k': "k' \<in> fst ` set cols"
    then have "k' \<noteq> k" using Cons.prems(1) c by auto
    then have "py_str_int k' \<noteq> py_str_int k" using py_str_int_inj by blast
    moreover have "PyStr (py_str_int k') \<notin> fst ` set acc"
      using Cons.prems(2) k' by auto
    ultimately show "PyStr (py_str_int k') \<notin> fst ` set ?acc" by simp
  qed
  moreover have "distinct (map fst cols)" using Cons.prems(1) by simp
  ultimately have "build_layout_data ?acc cols =
     ?acc @ map (\<lambda>(column_id, panel). (PyStr (py_str_int column_id), layout_entry panel)) cols"
    by (rule Cons.IH [rotated])
  then show ?case using fresh c by (simp add: dict_setitem_fresh)
qed

lemma convert_layout_saved:
  "distinct (map fst cols) \<Longrightarrow> \<forall>k \<in> fst ` set cols. PyInt k \<notin> fst ` set acc \<Longrightarrow>
   convert_layout acc (map (\<lambda>(column_id, panel). (PyStr (py_str_int column_id), layout_entry panel)) cols) =
     Inr (acc @ map (\<lambda>(column_id, panel). (PyInt column_id, snapshot_entry panel)) cols)"
proof (induction cols arbitrary: acc)
  case Nil
  then show ?case by simp
next
  case (Cons c cols)
  obtain k p where c: "c = (k, p)" by (cases c)
  have fresh: "PyInt k \<notin> fst ` set acc"
    using Cons.prems(2) c by simp
  let ?acc = "acc @ [(PyInt k, snapshot_entry p)]"
  have "\<forall>k' \<in> fst ` set cols. PyInt k' \<notin> fst ` set ?acc"
    using Cons.prems c by auto
  moreover have "distinct (map fst cols)" using Cons.prems(1) by simp
  ultimately have "convert_layout ?acc (map (\<lambda>(column_id, panel). (PyStr (py_str_int column_id), layout_entry panel)) cols) =
     Inr (?acc @ map (\<lambda>(column_id, panel). (PyInt column_id, snapshot_entry panel)) cols)"
    by (rule Cons.IH [rotated])
  then show ?case using fresh c
    by (simp add: dict_setitem_fresh convert_entry_layout_entry and_then_def py_int_str_py_str_int)
qed

text \<open>
  Claim C1. For every snapshot of live panels (a dict, so with distinct column ids) that
  \<^verbatim>\<open>saveLayout\<close> saves with success, \<^verbatim>\<open>loadLayout\<close> on the state it leaves
  returns the mapping with the same integer column ids, in the same order, each with the
  panel's \<^verbatim>\<open>QRect\<close> (so the same x, y, width and height) and its visibility flag.
  The bound of 8 entries is not needed.
\<close>

theorem saveLayout_loadLayout_roundtrip:
  assumes "distinct (map fst cols)"
    and "saveLayout self cols = Return self' True"
  shows "\<exists>self''. loadLayout self' = Return self'' (snapshot cols)"
proof -
  let ?saved = "map (\<lambda>(column_id, panel). (PyStr (py_str_int column_id), layout_entry panel)) cols"
  from assms(2) obtain path where path: "config_path self = Some path" "path \<noteq> []"
    and self': "self' = manager_logs (LogInfo ''Layout saved successfully'')
           (self\<lparr>files := (files self)(path \<mapsto> Document (PyDict (build_layout_data [] cols)))\<rparr>)"
    by (auto simp: saveLayout_def except_Exception_def Let_def split: option.splits if_splits)
  have built: "build_layout_data [] cols = ?saved"
    using build_layout_data_distinct [OF assms(1), of "[]"] by simp
  have conv: "convert_layout [] ?saved =
      Inr (map (\<lambda>(column_id, panel). (PyInt column_id, snapshot_entry panel)) cols)"
    using convert_layout_saved [OF assms(1), of "[]"] by simp
  have cp: "config_path self' = Some path" and fl: "files self' path = Some (Document (PyDict ?saved))"
    using path built by (simp_all add: self' manager_logs_def)
  show ?thesis
    by (simp add: loadLayout_def except_Exception_def cp fl path(2) and_then_def conv snapshot_def)
qed

lemma example_save:
  "saveLayout example_manager [(1, example_panel)] =
     Return (manager_logs (LogInfo ''Layout saved successfully'')
               (example_manager\<lparr>files := [''panel_layout.json'' \<mapsto> Document example_saved]\<rparr>)) True"
  by (simp add: saveLayout_def example_manager_def example_panel_def except_Exception_def
      example_saved_def py_str_int_def digits_of_nat.simps digit_char_def layout_entry_def
      QRect_x_def QRect_y_def QRect_width_def QRect_height_def QRect_new_def)

theorem saveLayout_loadLayout_roundtrip_witness:
  "distinct (map fst [(1, example_panel)]) \<and>
   saveLayout example_manager [(1, example_panel)] =
     Return (manager_logs (LogInfo ''Layout saved successfully'')
               (example_manager\<lparr>files := [''panel_layout.json'' \<mapsto> Document example_saved]\<rparr>)) True \<and>
   (\<exists>self''. loadLayout (manager_logs (LogInfo ''Layout saved successfully'')
               (example_manager\<lparr>files := [''panel_layout.json'' \<mapsto> Document example_saved]\<rparr>))
      = Return self'' (PyDict [(PyInt 1,
           PyDict [(PyStr ''geometry'', PyQRect (QRect_new 0 0 200 600)),
                   (PyStr ''visible'', PyBool True)])]))"
proof -
  have d: "distinct (map fst [(1::int, example_panel)])" by simp
  show ?thesis
    using saveLayout_loadLayout_roundtrip [OF d example_save] d example_save
    by (simp add: snapshot_def snapshot_entry_def example_panel_def)
qed

section \<open>Validating a layout\<close>

lemma py_all_in_swap: "py_all_in [a, b] data = py_all_in [b, a] data"
  by (cases data) (auto simp: and_then_def)

lemma validate_entry_True_iff:
  "validate_entry k data = Inr True \<longleftrightarrow> well_typed_entry (k, data)"
proof (cases data)
  case (PyDict kvs)
  show ?thesis
  proof (cases "map_of kvs (PyStr ''geometry'')")
    case None
    then have "PyStr ''geometry'' \<notin> fst ` set kvs" by (simp add: map_of_eq_None_iff)
    then show ?thesis using PyDict None
      by (simp add: validate_entry_def well_typed_entry_def required_keys_def and_then_def)
  next
    case (Some g)
    then have g: "PyStr ''geometry'' \<in> fst ` set kvs"
      by (metis map_of_eq_None_iff option.distinct(1))
    show ?thesis
    proof (cases "map_of kvs (PyStr ''visible'')")
      case None
      then have "PyStr ''visible'' \<notin> fst ` set kvs" by (simp add: map_of_eq_None_iff)
      then show ?thesis using PyDict None g
        by (simp add: validate_entry_def well_typed_entry_def required_keys_def and_then_def
            has_boolean_visibility_def)
    next
      case (Some v)
      then have v: "PyStr ''visible'' \<in> fst ` set kvs"
        by (metis map_of_eq_None_iff option.distinct(1))
      show ?thesis using PyDict \<open>map_of kvs (PyStr ''geometry'') = Some g\<close> Some g v
        by (cases g; cases v)
          (simp_all add: validate_entry_def well_typed_entry_def required_keys_def and_then_def
            has_boolean_visibility_def)
    qed
  qed
qed (simp_all add: validate_entry_def well_typed_entry_def required_keys_def and_then_def
       has_boolean_visibility_def)

lemma validate_entries_True_iff:
  "validate_entries d = Inr True \<longleftrightarrow> list_all well_typed_entry d"
proof (induction d)
  case Nil
  show ?case by simp
next
  case (Cons kv d)
  obtain k data where kv: "kv = (k, data)" by (cases kv)
  show ?case
  proof (cases "validate_entry k data")
    case (Inl e)
    then have "\<not> well_typed_entry (k, data)"
      using validate_entry_True_iff [of k data] by simp
    with Inl kv show ?thesis by (simp add: and_then_def)
  next
    case (Inr ok)
    then have "ok \<longleftrightarrow> well_typed_entry (k, data)"
      using validate_entry_True_iff [of k data] by simp
    with Inr kv Cons.IH show ?thesis by (simp add: and_then_def)
  qed
qed

lemma and_then_Inl:
  "and_then r f = Inl e \<Longrightarrow> r = Inl e \<or> (\<exists>v. r = Inr v \<and> f v = Inl e)"
  by (cases r) (simp_all add: and_then_def)

lemma and_then_Inr:
  "and_then r f = Inr y \<Longrightarrow> \<exists>v. r = Inr v \<and> f v = Inr y"
  by (cases r) (simp_all add: and_then_def)

lemma is_Exception_iff: "is_Exception e \<longleftrightarrow> e \<noteq> KeyboardInterrupt"
  by (cases e) simp_all

lemma py_contains_str_not_interrupt: "py_contains_str key data \<noteq> Inl KeyboardInterrupt"
  by (cases data) auto

lemma py_getitem_str_not_interrupt: "py_getitem_str data key \<noteq> Inl KeyboardInterrupt"
  by (cases data) (auto split: option.splits)

lemma py_all_in_not_interrupt: "py_all_in keys data \<noteq> Inl KeyboardInterrupt"
proof (induction keys)
  case Nil
  show ?case by simp
next
  case (Cons key keys)
  then show ?case
    using py_contains_str_not_interrupt [of key data]
    by (auto dest!: and_then_Inl split: if_splits)
qed

lemma validate_entry_not_interrupt: "validate_entry k data \<noteq> Inl KeyboardInterrupt"
  unfolding validate_entry_def
  using py_all_in_not_interrupt [of required_keys data]
    py_getitem_str_not_interrupt [of data "''geometry''"]
    py_getitem_str_not_interrupt [of data "''visible''"]
  by (auto dest!: and_then_Inl split: if_splits)

lemma validate_entries_not_interrupt: "validate_entries d \<noteq> Inl KeyboardInterrupt"
proof (induction d)
  case Nil
  show ?case by simp
next
  case (Cons kv d)
  obtain k data where kv: "kv = (k, data)" by (cases kv)
  show ?case unfolding kv
    using validate_entry_not_interrupt [of k data] Cons.IH
    by (auto dest!: and_then_Inl split: if_splits)
qed

lemma validate_entries_is_Exception: "validate_entries d = Inl e \<Longrightarrow> is_Exception e"
  using validate_entries_not_interrupt [of d] by (auto simp: is_Exception_iff)

lemma validateLayout_cases:
  "validateLayout self (PyDict d) =
     (if 8 < length d then Return self False
      else case validate_entries d of
             Inr ok \<Rightarrow> Return self ok
           | Inl e \<Rightarrow> Return (manager_logs (LogError ''Error validating layout: '' e) self) False)"
  using validate_entries_is_Exception [of d]
  by (auto simp: validateLayout_def except_Exception_def split: sum.splits)

lemma validateLayout_True_iff:
  "value_of (validateLayout self (PyDict d)) = Some True \<longleftrightarrow>
     length d \<le> 8 \<and> list_all well_typed_entry d"
proof (cases "validate_entries d")
  case (Inl e)
  then have "\<not> list_all well_typed_entry d"
    using validate_entries_True_iff [of d] by simp
  with Inl show ?thesis by (simp add: validateLayout_cases)
next
  case (Inr ok)
  then have "ok \<longleftrightarrow> list_all well_typed_entry d"
    using validate_entries_True_iff [of d] by simp
  with Inr show ?thesis by (auto simp add: validateLayout_cases)
qed

lemma validateLayout_returns: "\<exists>s b. validateLayout self v = Return s b \<and> files s = files self \<and> config_path s = config_path self"
proof (cases v)
  case (PyDict d)
  show ?thesis
  proof (cases "validate_entries d")
    case (Inl e)
    then show ?thesis unfolding PyDict
      by (cases "8 < length d") (auto simp add: validateLayout_cases manager_logs_def)
  next
    case (Inr ok)
    then show ?thesis unfolding PyDict
      by (cases "8 < length d") (auto simp add: validateLayout_cases)
  qed
qed (auto simp add: validateLayout_def except_Exception_def)

text \<open>
  Claim C2, as the code has it. \<^verbatim>\<open>validateLayout\<close> never raises and leaves the
  stored files alone (its argument is only read: the model has no way to write to it).
  It returns \<^verbatim>\<open>False\<close> for every mapping with more than 8 entries and for every
  mapping with an entry whose visibility is missing or not a boolean. It does not look at
  the width or the height: a mapping of at most 8 entries, each with an integer key, a
  \<^verbatim>\<open>QRect\<close> geometry and a boolean visibility, is accepted.
\<close>

theorem validateLayout_rejects:
  "returns (validateLayout self v) \<and>
   files (state_of (validateLayout self v)) = files self \<and>
   (8 < length d \<longrightarrow> value_of (validateLayout self (PyDict d)) = Some False) \<and>
   ((k, data) \<in> set d \<and> \<not> has_boolean_visibility data \<longrightarrow>
      value_of (validateLayout self (PyDict d)) = Some False) \<and>
   (length d \<le> 8 \<and> list_all well_typed_entry d \<longrightarrow>
      value_of (validateLayout self (PyDict d)) = Some True)"
proof -
  obtain s b where r: "validateLayout self v = Return s b" "files s = files self"
    using validateLayout_returns by blast
  obtain s' b' where r': "validateLayout self (PyDict d) = Return s' b'"
    using validateLayout_returns by blast
  have a: "8 < length d \<longrightarrow> value_of (validateLayout self (PyDict d)) = Some False"
    by (simp add: validateLayout_cases)
  have b: "(k, data) \<in> set d \<and> \<not> has_boolean_visibility data \<longrightarrow>
      value_of (validateLayout self (PyDict d)) = Some False"
  proof
    assume h: "(k, data) \<in> set d \<and> \<not> has_boolean_visibility data"
    then have "\<not> well_typed_entry (k, data)" by (simp add: well_typed_entry_def)
    with h have "\<not> list_all well_typed_entry d" by (auto simp: list_all_iff)
    then have "value_of (validateLayout self (PyDict d)) \<noteq> Some True"
      by (simp add: validateLayout_True_iff)
    with r' show "value_of (validateLayout self (PyDict d)) = Some False" by simp
  qed
  have c: "length d \<le> 8 \<and> list_all well_typed_entry d \<longrightarrow>
      value_of (validateLayout self (PyDict d)) = Some True"
    by (simp add: validateLayout_True_iff)
  from r a b c show ?thesis by simp
qed

text \<open>A mapping whose only entry has the width -5 is accepted.\<close>

theorem validateLayout_negative_width_counterexample:
  "validateLayout example_manager negative_width_layout = Return example_manager True \<and>
   QRect_width (QRect_new 0 0 (- 5) 10) = - 5"
  by (simp add: validateLayout_def except_Exception_def negative_width_layout_def
      validate_entry_def required_keys_def and_then_def QRect_width_def QRect_new_def)

theorem validateLayout_rejects_witness:
  "length (map (\<lambda>k. (PyInt k, snapshot_entry example_panel)) [1, 2, 3, 4, 5, 6, 7, 8, 9 :: int]) = 9 \<and>
   value_of (validateLayout example_manager nine_columns) = Some False \<and>
   \<not> has_boolean_visibility (PyDict [(PyStr ''geometry'', PyQRect (QRect_new 0 0 200 600)),
                (PyStr ''visible'', PyStr ''yes'')]) \<and>
   value_of (validateLayout example_manager string_visibility_layout) = Some False \<and>
   value_of (validateLayout example_manager negative_width_layout) = Some True \<and>
   returns (validateLayout example_manager negative_width_layout)"
proof -
  let ?e = "PyDict [(PyStr ''geometry'', PyQRect (QRect_new 0 0 200 600)),
                (PyStr ''visible'', PyStr ''yes'')]"
  let ?n = "map (\<lambda>k. (PyInt k, snapshot_entry example_panel)) [1, 2, 3, 4, 5, 6, 7, 8, 9 :: int]"
  have 1: "8 < length ?n" by simp
  have 2: "(PyInt 1, ?e) \<in> set [(PyInt 1, ?e)] \<and> \<not> has_boolean_visibility ?e"
    by (simp add: has_boolean_visibility_def)
  let ?g = "[(PyInt 1, PyDict [(PyStr ''geometry'', PyQRect (QRect_new 0 0 (- 5) 10)),
                (PyStr ''visible'', PyBool True)])]"
  have 3: "length ?g \<le> 8 \<and> list_all well_typed_entry ?g"
    by (simp add: well_typed_entry_def has_boolean_visibility_def)
  show ?thesis
    using validateLayout_rejects [of example_manager "PyDict ?n" ?n] 1
      validateLayout_rejects [of example_manager PyNone "[(PyInt 1, ?e)]" "PyInt 1" ?e] 2
      validateLayout_rejects [of example_manager negative_width_layout ?g] 3
    by (simp add: nine_columns_def string_visibility_layout_def negative_width_layout_def)
qed

section \<open>Loading from any store\<close>

lemma as_c_int_not_interrupt: "as_c_int v \<noteq> Inl KeyboardInterrupt"
  by (cases v) auto

lemma PyQt_QRect_not_interrupt: "PyQt_QRect a b c d \<noteq> Inl KeyboardInterrupt"
  unfolding PyQt_QRect_def
  using as_c_int_not_interrupt [of a] as_c_int_not_interrupt [of b]
    as_c_int_not_interrupt [of c] as_c_int_not_interrupt [of d]
  by (auto dest!: and_then_Inl)

lemma py_int_not_interrupt: "py_int v \<noteq> Inl KeyboardInterrupt"
  by (cases v) (auto simp: py_int_str_def split: list.splits option.splits)

lemma convert_entry_not_interrupt: "convert_entry data \<noteq> Inl KeyboardInterrupt"
  unfolding convert_entry_def
  using py_getitem_str_not_interrupt [of data] PyQt_QRect_not_interrupt
  by (auto dest!: and_then_Inl)

lemma convert_layout_not_interrupt: "convert_layout acc d \<noteq> Inl KeyboardInterrupt"
proof (induction d arbitrary: acc)
  case Nil
  show ?case by simp
next
  case (Cons kv d)
  obtain k data where kv: "kv = (k, data)" by (cases kv)
  show ?case unfolding kv
    using convert_entry_not_interrupt [of data] py_int_not_interrupt [of k] Cons.IH
    by (auto dest!: and_then_Inl)
qed

lemma json_load_not_interrupt: "json_load c \<noteq> Inl KeyboardInterrupt"
  by (cases c rule: json_load.cases) auto

lemma py_items_not_interrupt: "py_items v \<noteq> Inl KeyboardInterrupt"
  by (cases v) auto

lemma convert_entry_shape:
  "convert_entry data = Inr entry \<Longrightarrow>
     \<exists>r vis. entry = PyDict [(PyStr ''geometry'', PyQRect r), (PyStr ''visible'', vis)]"
  unfolding convert_entry_def by (auto dest!: and_then_Inr)

lemma list_all_dict_setitem:
  "list_all P d \<Longrightarrow> P (k, v) \<Longrightarrow> list_all P (dict_setitem d k v)"
  by (induction d) auto

lemma map_fst_dict_setitem:
  "map fst (dict_setitem d k v) = (if k \<in> set (map fst d) then map fst d else map fst d @ [k])"
  by (induction d) force+

lemma fst_set_dict_setitem: "fst ` set (dict_setitem d k v) = insert k (fst ` set d)"
proof -
  have "fst ` set (dict_setitem d k v) = set (map fst (dict_setitem d k v))" by simp
  also have "\<dots> = insert k (fst ` set d)"
    unfolding map_fst_dict_setitem by auto
  finally show ?thesis .
qed

lemma distinct_dict_setitem:
  "distinct (map fst d) \<Longrightarrow> distinct (map fst (dict_setitem d k v))"
  by (simp add: map_fst_dict_setitem)

lemma convert_layout_result:
  "convert_layout acc d = Inr res \<Longrightarrow> list_all loaded_entry acc \<Longrightarrow> distinct (map fst acc) \<Longrightarrow>
     list_all loaded_entry res \<and> distinct (map fst res) \<and>
     fst ` set res = fst ` set acc \<union> {PyInt n | n. \<exists>k \<in> fst ` set d. py_int k = Inr n}"
proof (induction d arbitrary: acc)
  case Nil
  then show ?case by simp
next
  case (Cons kv d)
  obtain k data where kv: "kv = (k, data)" by (cases kv)
  from Cons.prems(1) obtain entry n where
    entry: "convert_entry data = Inr entry" and n: "py_int k = Inr n"
    and rest: "convert_layout (dict_setitem acc (PyInt n) entry) d = Inr res"
    unfolding kv by (auto dest!: and_then_Inr)
  have "loaded_entry (PyInt n, entry)"
    using convert_entry_shape [OF entry] by (auto simp: loaded_entry_def)
  then have "list_all loaded_entry (dict_setitem acc (PyInt n) entry)"
    using Cons.prems(2) by (simp add: list_all_dict_setitem)
  moreover have "distinct (map fst (dict_setitem acc (PyInt n) entry))"
    using Cons.prems(3) by (rule distinct_dict_setitem)
  ultimately have IH: "list_all loaded_entry res \<and> distinct (map fst res) \<and>
     fst ` set res = fst ` set (dict_setitem acc (PyInt n) entry)
        \<union> {PyInt n | n. \<exists>k \<in> fst ` set d. py_int k = Inr n}"
    using Cons.IH [OF rest] by blast
  then show ?case using n unfolding kv
    by (auto simp: fst_set_dict_setitem)
qed

lemma loadLayout_cases:
  "loadLayout self =
     (case saved_record self of
        None \<Rightarrow> Return (manager_logs (LogInfo ''No saved layout found, using default'') self) PyNone
      | Some c \<Rightarrow>
          (case and_then (json_load (Some c)) (\<lambda>layout_data.
                  and_then (py_items layout_data) (convert_layout [])) of
             Inl e \<Rightarrow> Return (manager_logs (LogError ''Error loading layout: '' e) self) PyNone
           | Inr converted_layout \<Rightarrow>
               Return (manager_logs (LogInfo ''Layout loaded successfully'') self)
                 (PyDict converted_layout)))"
proof -
  have ne: "\<And>c e. and_then (json_load c) (\<lambda>layout_data.
                  and_then (py_items layout_data) (convert_layout [])) = Inl e \<Longrightarrow> is_Exception e"
    using json_load_not_interrupt py_items_not_interrupt convert_layout_not_interrupt
    by (auto simp: is_Exception_iff dest!: and_then_Inl)
  show ?thesis
    by (auto simp: loadLayout_def saved_record_def except_Exception_def dest: ne
        split: option.splits sum.splits)
qed

lemma convert_layout_keys:
  "convert_layout acc d = Inr res \<Longrightarrow> \<forall>k \<in> fst ` set d. \<exists>n. py_int k = Inr n"
proof (induction d arbitrary: acc)
  case Nil
  then show ?case by simp
next
  case (Cons kv d)
  obtain k data where kv: "kv = (k, data)" by (cases kv)
  from Cons.prems obtain entry n where n: "py_int k = Inr n"
    and rest: "convert_layout (dict_setitem acc (PyInt n) entry) d = Inr res"
    unfolding kv by (auto dest!: and_then_Inr)
  show ?case using n Cons.IH [OF rest] unfolding kv by auto
qed

text \<open>
  Claim C6, as the code has it. For every state of the store \<^verbatim>\<open>loadLayout\<close> returns
  (it never raises) and leaves the files as they are. It returns \<^verbatim>\<open>None\<close> when
  there is no file, or the file cannot be read or parsed. Whatever else it returns is a
  complete mapping: the record was a JSON object, the conversion loop ran over all of its
  entries without a fault, every one of its keys was converted by \<^verbatim>\<open>int\<close>, the
  keys of the result are exactly those integers, and every entry has a
  \<^verbatim>\<open>QRect\<close> geometry and a visibility value. The number of entries, the sign of
  width and height and the type of the visibility value are not checked.
\<close>

theorem loadLayout_total:
  "returns (loadLayout self) \<and>
   files (state_of (loadLayout self)) = files self \<and>
   config_path (state_of (loadLayout self)) = config_path self \<and>
   (saved_record self = None \<or> saved_record self = Some Unreadable
      \<or> saved_record self = Some Malformed \<longrightarrow> value_of (loadLayout self) = Some PyNone) \<and>
   (value_of (loadLayout self) = Some r \<longrightarrow>
      r = PyNone \<or>
      (\<exists>items d. saved_record self = Some (Document (PyDict items)) \<and> r = PyDict d \<and>
         convert_layout [] items = Inr d \<and>
         list_all loaded_entry d \<and> distinct (map fst d) \<and>
         (\<forall>k \<in> fst ` set items. \<exists>n. py_int k = Inr n) \<and>
         fst ` set d = {PyInt n | n. \<exists>k \<in> fst ` set items. py_int k = Inr n}))"
proof (cases "saved_record self")
  case None
  then show ?thesis by (simp add: loadLayout_cases manager_logs_def)
next
  case (Some c)
  let ?conv = "and_then (json_load (Some c)) (\<lambda>layout_data.
                  and_then (py_items layout_data) (convert_layout []))"
  show ?thesis
  proof (cases ?conv)
    case (Inl e)
    then show ?thesis using Some by (simp add: loadLayout_cases manager_logs_def)
  next
    case (Inr d)
    then obtain v items where v: "json_load (Some c) = Inr v" and items: "py_items v = Inr items"
      and conv: "convert_layout [] items = Inr d"
      by (auto dest!: and_then_Inr)
    from v have c: "c = Document v" by (cases c) simp_all
    from items have vd: "v = PyDict items" by (cases v) simp_all
    have res: "list_all loaded_entry d \<and> distinct (map fst d) \<and>
       fst ` set d = {PyInt n | n. \<exists>k \<in> fst ` set items. py_int k = Inr n}"
      using convert_layout_result [OF conv] by simp
    have keys: "\<forall>k \<in> fst ` set items. \<exists>n. py_int k = Inr n"
      using convert_layout_keys [OF conv] .
    have load: "loadLayout self =
        Return (manager_logs (LogInfo ''Layout loaded successfully'') self) (PyDict d)"
      using Some Inr by (simp add: loadLayout_cases)
    have "saved_record self = Some (Document (PyDict items))"
      using Some c vd by simp
    with res keys conv show ?thesis
      unfolding load by (auto simp add: manager_logs_def)
  qed
qed

text \<open>A record with one entry, of width -5 and visibility \<^verbatim>\<open>"yes"\<close>, is loaded
  as it is, and the mapping returned breaks the snapshot invariant.\<close>

theorem loadLayout_invalid_counterexample:
  "loadLayout (manager_with (Document odd_record)) =
     Return (manager_logs (LogInfo ''Layout loaded successfully'') (manager_with (Document odd_record)))
       (PyDict [(PyInt 1,
          PyDict [(PyStr ''geometry'', PyQRect (QRect_new 0 0 (- 5) 10)),
                  (PyStr ''visible'', PyStr ''yes'')])]) \<and>
   \<not> snapshot_invariant (PyDict [(PyInt 1,
          PyDict [(PyStr ''geometry'', PyQRect (QRect_new 0 0 (- 5) 10)),
                  (PyStr ''visible'', PyStr ''yes'')])])"
  by (simp add: loadLayout_def manager_with_def odd_record_def except_Exception_def and_then_def
      convert_entry_def PyQt_QRect_def in_c_int_def py_int_str_def py_strip_def is_space_def
      digit_val_def snapshot_invariant_def has_boolean_visibility_def)

theorem loadLayout_total_witness:
  "saved_record (manager_with Malformed) = Some Malformed \<and>
   value_of (loadLayout (manager_with Malformed)) = Some PyNone \<and>
   returns (loadLayout (manager_with (Document odd_record))) \<and>
   (\<exists>d. value_of (loadLayout (manager_with (Document odd_record))) = Some (PyDict d) \<and>
        list_all loaded_entry d \<and>
        fst ` set d = {PyInt n | n. \<exists>k \<in> fst ` set [(PyStr ''1'', PyNone)]. py_int k = Inr n})"
proof -
  have m: "saved_record (manager_with Malformed) = Some Malformed"
    by (simp add: saved_record_def manager_with_def)
  have v: "value_of (loadLayout (manager_with (Document odd_record))) =
      Some (PyDict [(PyInt 1,
          PyDict [(PyStr ''geometry'', PyQRect (QRect_new 0 0 (- 5) 10)),
                  (PyStr ''visible'', PyStr ''yes'')])])"
    by (simp add: loadLayout_def manager_with_def odd_record_def except_Exception_def and_then_def
      convert_entry_def PyQt_QRect_def in_c_int_def py_int_str_def py_strip_def is_space_def
      digit_val_def)
  have s: "saved_record (manager_with (Document odd_record)) = Some (Document odd_record)"
    by (simp add: saved_record_def manager_with_def)
  show ?thesis
    using loadLayout_total [of "manager_with Malformed" PyNone] m
      loadLayout_total [of "manager_with (Document odd_record)"
        "PyDict [(PyInt 1,
          PyDict [(PyStr ''geometry'', PyQRect (QRect_new 0 0 (- 5) 10)),
                  (PyStr ''visible'', PyStr ''yes'')])]"] v s
    by (auto simp: odd_record_def)
qed

section \<open>The widget's event handlers\<close>

lemma first_fault_no_faults: "first_fault no_faults names = None"
  by (induction names) (simp_all add: first_fault.simps no_faults_def)

lemma qt_calls_no_faults: "qt_calls no_faults names s rest = rest"
  by (simp add: qt_calls_def first_fault_no_faults)

lemma first_fault_Some: "first_fault qt names = Some e \<Longrightarrow> \<exists>name. qt name = Some e"
  by (induction names) (auto simp: first_fault.simps split: option.splits)

lemma first_fault_hd: "qt name = Some e \<Longrightarrow> first_fault qt (name # names) = Some e"
  by (simp add: first_fault.simps)

lemma first_fault_None_iff: "first_fault qt names = None \<longleftrightarrow> (\<forall>name \<in> set names. qt name = None)"
  by (induction names) (auto simp: first_fault.simps split: option.splits)

lemma qt_calls_cases:
  "qt_calls qt names s rest = rest \<or> (\<exists>e name. qt name = Some e \<and> qt_calls qt names s rest = Raise s e)"
  by (cases "first_fault qt names") (auto simp: qt_calls_def dest: first_fault_Some)

lemma applyStyle_eq: "applyStyle self = Return (self\<lparr>styleSheet := DefaultStyle\<rparr>) ()"
  by (simp add: applyStyle_def except_Exception_def)

lemma highlightDropZone_eq:
  "highlightDropZone highlight self =
     Return (self\<lparr>styleSheet := (if highlight then HighlightStyle else DefaultStyle)\<rparr>) ()"
  by (simp add: highlightDropZone_def applyStyle_eq except_Exception_def)

lemma caught_qt_calls:
  "\<forall>name e. qt name = Some e \<longrightarrow> is_Exception e \<Longrightarrow> caught rest \<Longrightarrow> caught (qt_calls qt names s rest)"
  using qt_calls_cases [of qt names s rest] by (auto simp: caught_def)

lemma caught_Return: "caught (Return s ())"
  by (simp add: caught_def)

lemma caught_Raise: "is_Exception e \<Longrightarrow> caught (Raise s e)"
  by (simp add: caught_def)

lemma caught_if: "caught a \<Longrightarrow> caught b \<Longrightarrow> caught (if c then a else b)"
  by simp

lemma returns_except_Exception:
  "caught body \<Longrightarrow> returns (except_Exception body (\<lambda>s e. Return (f s e) ()))"
  by (cases body) (simp_all add: caught_def except_Exception_def)

lemma mousePressEvent_returns:
  "\<forall>name e. qt name = Some e \<longrightarrow> is_Exception e \<Longrightarrow> returns (mousePressEvent qt self event)"
  unfolding mousePressEvent_def
  by (intro returns_except_Exception caught_qt_calls caught_if caught_Return) 

lemma resizeEvent_returns:
  "\<forall>name e. qt name = Some e \<longrightarrow> is_Exception e \<Longrightarrow> returns (resizeEvent qt self sz)"
  unfolding resizeEvent_def
  by (intro returns_except_Exception caught_qt_calls caught_if caught_Return) 

lemma dragEnterEvent_returns:
  "\<forall>name e. qt name = Some e \<longrightarrow> is_Exception e \<Longrightarrow> returns (dragEnterEvent qt self event)"
  unfolding dragEnterEvent_def highlightDropZone_eq outcome.case
  by (intro returns_except_Exception caught_qt_calls caught_if caught_Return) 

lemma dragLeaveEvent_returns:
  "\<forall>name e. qt name = Some e \<longrightarrow> is_Exception e \<Longrightarrow> returns (dragLeaveEvent qt self event)"
  unfolding dragLeaveEvent_def highlightDropZone_eq outcome.case
  by (intro returns_except_Exception caught_qt_calls caught_if caught_Return) 

lemma dropEvent_returns:
  "\<forall>name e. qt name = Some e \<longrightarrow> is_Exception e \<Longrightarrow> returns (dropEvent qt self event)"
  unfolding dropEvent_def highlightDropZone_eq outcome.case
  by (intro returns_except_Exception caught_qt_calls caught_if caught_Return) 

lemma mouseMoveEvent_returns:
  assumes "\<forall>name e. qt name = Some e \<longrightarrow> is_Exception e"
  shows "returns (mouseMoveEvent qt h self event)"
proof -
  have tail: "caught (qt_calls qt [''QPoint.__sub__'', ''QPoint.manhattanLength''] self
                      (let moved = manhattanLength
                             (fst (mouse_pos event) - fst start, snd (mouse_pos event) - snd start)
                       in (case lookup_name h widget_module_names ''QApplication'' of
                             Inl e \<Rightarrow> Raise self e
                           | Inr u \<Rightarrow>
                               qt_calls qt [''QApplication.startDragDistance''] self
                                 (if moved < startDragDistance h then Return self ()
                                  else
                                    qt_calls qt drag_calls self
                                      (Return
                                         (self\<lparr>drags := drags self @ [begin_drag self event]\<rparr>)
                                         ())))))" for start
  proof (cases "lookup_name h widget_module_names ''QApplication''")
    case (Inl e)
    then have "e = NameError ''QApplication''"
      by (auto simp: lookup_name_def split: if_splits)
    with Inl show ?thesis
      by (intro caught_qt_calls assms) (simp add: caught_def)
  next
    case (Inr u)
    then show ?thesis
      unfolding Let_def
      by (simp only: sum.case) (intro caught_qt_calls caught_if caught_Return assms)
  qed
  have "caught (case dragStartPosition self of
                  None \<Rightarrow> Raise self (AttributeError ''dragStartPosition'')
                | Some start \<Rightarrow>
                    qt_calls qt [''QPoint.__sub__'', ''QPoint.manhattanLength''] self
                      (let moved = manhattanLength
                             (fst (mouse_pos event) - fst start, snd (mouse_pos event) - snd start)
                       in (case lookup_name h widget_module_names ''QApplication'' of
                             Inl e \<Rightarrow> Raise self e
                           | Inr u \<Rightarrow>
                               qt_calls qt [''QApplication.startDragDistance''] self
                                 (if moved < startDragDistance h then Return self ()
                                  else
                                    qt_calls qt drag_calls self
                                      (Return
                                         (self\<lparr>drags := drags self @ [begin_drag self event]\<rparr>)
                                         ())))))"
  proof (cases "dragStartPosition self")
    case None
    then show ?thesis by (simp add: caught_def)
  next
    case (Some start)
    then show ?thesis using tail [of start] by simp
  qed
  then show ?thesis
    unfolding mouseMoveEvent_def
    by (intro returns_except_Exception caught_qt_calls caught_if caught_Return assms)
qed

lemma qt_calls_hd: "qt name = Some e \<Longrightarrow> qt_calls qt (name # names) s rest = Raise s e"
  by (simp add: qt_calls_def first_fault_hd)

lemma qt_calls_through:
  assumes "\<forall>name \<in> set names. qt name = None"
  shows "qt_calls qt names s rest = rest"
proof -
  have "first_fault qt names = None"
    using assms by (simp only: first_fault_None_iff)
  then show ?thesis by (simp add: qt_calls_def)
qed

lemma style_qt_calls:
  "styleSheet (fst s) = st \<Longrightarrow> styleSheet (fst (state_of rest)) = st \<Longrightarrow>
   styleSheet (fst (state_of (qt_calls qt names s rest))) = st"
  using qt_calls_cases [of qt names s rest] by auto

lemma style_except_Exception:
  "styleSheet (fst (state_of body)) = st \<Longrightarrow>
   styleSheet (fst (state_of (except_Exception body
      (\<lambda>s e. Return (widget_logs (f e) (fst s), snd s) ())))) = st"
  by (cases body) (simp_all add: except_Exception_def widget_logs_def)

lemma style_if:
  "styleSheet (fst (state_of a)) = st \<Longrightarrow> styleSheet (fst (state_of b)) = st \<Longrightarrow>
   styleSheet (fst (state_of (if c then a else b))) = st"
  by simp

lemma dragLeaveEvent_style:
  "styleSheet (fst (state_of (dragLeaveEvent qt self leave))) = DefaultStyle"
  unfolding dragLeaveEvent_def highlightDropZone_eq outcome.case
  by (intro style_except_Exception style_qt_calls) simp_all

lemma dropEvent_style:
  "styleSheet (fst (state_of (dropEvent qt self event))) = DefaultStyle"
  unfolding dropEvent_def highlightDropZone_eq outcome.case
  by (intro style_except_Exception style_qt_calls style_if) simp_all

lemma dragEnterEvent_style:
  assumes "\<not> (hasText (mimeData event) \<and> mime_text (mimeData event) = ''panel'')"
  shows "styleSheet (fst (state_of (dragEnterEvent qt self event))) = styleSheet self"
proof -
  have body: "qt_calls qt [''event.mimeData'', ''QMimeData.hasText''] (self, event)
          (if hasText (mimeData event) then
             qt_calls qt [''QMimeData.text''] (self, event)
               (if mime_text (mimeData event) = ''panel'' then
                  qt_calls qt [''event.acceptProposedAction''] (self, event)
                    (case highlightDropZone True self of
                       Return s u \<Rightarrow> Return (s, acceptProposedAction event) ()
                     | Raise s e \<Rightarrow> Raise (s, acceptProposedAction event) e)
                else
                  qt_calls qt [''event.ignore''] (self, event) (Return (self, ignore event) ()))
           else qt_calls qt [''event.ignore''] (self, event) (Return (self, ignore event) ()))
       = qt_calls qt [''event.mimeData'', ''QMimeData.hasText''] (self, event)
          (if hasText (mimeData event) then
             qt_calls qt [''QMimeData.text''] (self, event)
               (qt_calls qt [''event.ignore''] (self, event) (Return (self, ignore event) ()))
           else qt_calls qt [''event.ignore''] (self, event) (Return (self, ignore event) ()))"
    using assms by auto
  show ?thesis
    unfolding dragEnterEvent_def body
    by (intro style_except_Exception style_qt_calls style_if) simp_all
qed

lemma dragLeaveEvent_eq:
  "dragLeaveEvent no_faults self event =
     Return (self\<lparr>styleSheet := DefaultStyle\<rparr>, event\<lparr>leave_accepted := True\<rparr>) ()"
  by (simp add: dragLeaveEvent_def highlightDropZone_eq except_Exception_def qt_calls_no_faults)

lemma dropEvent_eq:
  "dropEvent no_faults self event =
     (if hasText (mimeData event) \<and> mime_text (mimeData event) = ''panel'' then
        Return (self\<lparr>styleSheet := DefaultStyle,
                      emitted := emitted self @ [panelMoved (wid self) (drop_pos event)]\<rparr>,
                acceptProposedAction event) ()
      else Return (self\<lparr>styleSheet := DefaultStyle\<rparr>, ignore event) ())"
  by (simp add: dropEvent_def highlightDropZone_eq except_Exception_def qt_calls_no_faults)

lemma dragEnterEvent_through:
  assumes "qt ''event.mimeData'' = None" "qt ''QMimeData.hasText'' = None"
    "qt ''QMimeData.text'' = None" "qt ''event.ignore'' = None"
    "qt ''event.acceptProposedAction'' = None"
  shows "dragEnterEvent qt self event =
     (if hasText (mimeData event) \<and> mime_text (mimeData event) = ''panel'' then
        Return (self\<lparr>styleSheet := HighlightStyle\<rparr>, acceptProposedAction event) ()
      else Return (self, ignore event) ())"
  using assms
  by (simp add: dragEnterEvent_def highlightDropZone_eq except_Exception_def qt_calls_through)

lemma mouseMoveEvent_without_QApplication:
  assumes "''QApplication'' \<notin> set (builtins h)"
  shows "drags (state_of (mouseMoveEvent qt h self event)) = drags self"
proof -
  have nf: "lookup_name h widget_module_names ''QApplication'' = Inl (NameError ''QApplication'')"
    using assms by (simp add: lookup_name_def widget_module_names_def)
  have q: "drags (state_of (qt_calls qt names self rest)) = drags self"
    if "drags (state_of rest) = drags self" for names and rest :: "(DragDropPanelWidget, unit) outcome"
    using qt_calls_cases [of qt names self rest] that by auto
  have x: "drags (state_of (except_Exception body
        (\<lambda>s e. Return (widget_logs (LogError ''Error in mouse move event: '' e) s) ()))) = drags self"
    if "drags (state_of body) = drags self" for body
    using that by (cases body) (simp_all add: except_Exception_def widget_logs_def)
  have inner: "drags (state_of
      (case dragStartPosition self of
         None \<Rightarrow> Raise self (AttributeError ''dragStartPosition'')
       | Some start \<Rightarrow>
           qt_calls qt [''QPoint.__sub__'', ''QPoint.manhattanLength''] self
             (Raise self (NameError ''QApplication'') :: (DragDropPanelWidget, unit) outcome)))
      = drags self"
    by (cases "dragStartPosition self") (simp_all add: q)
  have "drags (state_of
      (qt_calls qt [''event.buttons''] self
          (if LeftButton \<notin> set (buttons event) then Return self ()
           else
             qt_calls qt [''event.pos''] self
               (case dragStartPosition self of
                  None \<Rightarrow> Raise self (AttributeError ''dragStartPosition'')
                | Some start \<Rightarrow>
                    qt_calls qt [''QPoint.__sub__'', ''QPoint.manhattanLength''] self
                      (Raise self (NameError ''QApplication'')))))) = drags self"
    using inner by (intro q) (simp add: q)
  then show ?thesis
    unfolding mouseMoveEvent_def nf sum.case Let_def by (rule x)
qed

lemma mouseMoveEvent_with_QApplication:
  "''QApplication'' \<in> set (builtins h) \<Longrightarrow> LeftButton \<in> set (buttons event) \<Longrightarrow>
   dragStartPosition self = Some start \<Longrightarrow>
   startDragDistance h \<le> manhattanLength
       (fst (mouse_pos event) - fst start, snd (mouse_pos event) - snd start) \<Longrightarrow>
   mouseMoveEvent no_faults h self event =
     Return (self\<lparr>drags := drags self @ [begin_drag self event]\<rparr>) ()"
  by (simp add: mouseMoveEvent_def except_Exception_def lookup_name_def Let_def qt_calls_no_faults)

text \<open>
  Claim C3 at a concrete input. The module never imports \<^verbatim>\<open>QApplication\<close>, and
  the host does not bind the name either. After a left press at (0, 0), a move to (50, 0)
  with the left button held is 50 pixels away, past the drag distance 10; with every Qt
  call going through, the handler raises \<^verbatim>\<open>NameError\<close> at
  \<^verbatim>\<open>QApplication.startDragDistance()\<close>, logs it, and begins no drag.
  (\<open>mouseMoveEvent_without_QApplication\<close> shows that no drag begins for any widget,
  event and Qt faults; \<open>mouseMoveEvent_with_QApplication\<close> shows the drag the code
  would begin if the name were bound.)
\<close>

theorem mouseMoveEvent_NameError:
  "LeftButton \<in> set (buttons far_move) \<and>
   dragStartPosition pressed_panel = Some (0, 0) \<and>
   startDragDistance krita_host \<le> manhattanLength (fst (mouse_pos far_move) - 0, snd (mouse_pos far_move) - 0) \<and>
   mouseMoveEvent no_faults krita_host pressed_panel far_move =
     Return (widget_logs (LogError ''Error in mouse move event: '' (NameError ''QApplication''))
               pressed_panel) () \<and>
   widget_log (state_of (mouseMoveEvent no_faults krita_host pressed_panel far_move)) =
     [LogError ''Error in mouse move event: '' (NameError ''QApplication'')] \<and>
   drags (state_of (mouseMoveEvent no_faults krita_host pressed_panel far_move)) = []"
  by (simp add: mouseMoveEvent_def except_Exception_def lookup_name_def Let_def qt_calls_no_faults
      widget_module_names_def krita_host_def pressed_panel_def far_move_def example_panel_def
      manhattanLength_def widget_logs_def)

text \<open>
  Claim C7. After any drag-leave event and after any drop event, whatever its payload,
  the widget carries the default, non-highlighted style: when every Qt call goes through,
  where the handler returns, and also whichever Qt calls of the handler raise. When the
  faults are exceptions the handler returns then too.
\<close>

theorem no_highlight_after_leave_or_drop:
  "returns (dragLeaveEvent no_faults self leave) \<and>
   styleSheet (fst (state_of (dragLeaveEvent no_faults self leave))) = DefaultStyle \<and>
   returns (dropEvent no_faults self event) \<and>
   styleSheet (fst (state_of (dropEvent no_faults self event))) = DefaultStyle \<and>
   styleSheet (fst (state_of (dragLeaveEvent qt self leave))) = DefaultStyle \<and>
   styleSheet (fst (state_of (dropEvent qt self event))) = DefaultStyle \<and>
   ((\<forall>name e. qt name = Some e \<longrightarrow> is_Exception e) \<longrightarrow>
      returns (dragLeaveEvent qt self leave) \<and> returns (dropEvent qt self event))"
  using dragLeaveEvent_returns [of qt self leave] dropEvent_returns [of qt self event]
  by (simp add: dragLeaveEvent_eq dropEvent_eq dragLeaveEvent_style dropEvent_style)

theorem no_highlight_after_leave_or_drop_witness:
  "styleSheet highlighted_panel = HighlightStyle \<and>
   styleSheet (fst (state_of (dragLeaveEvent no_faults highlighted_panel \<lparr>leave_accepted = False\<rparr>))) = DefaultStyle \<and>
   styleSheet (fst (state_of (dropEvent no_faults highlighted_panel panel_drop))) = DefaultStyle \<and>
   styleSheet (fst (state_of (dropEvent no_faults highlighted_panel file_drop))) = DefaultStyle \<and>
   all_calls_raise ''event.accept'' = Some RuntimeError \<and> is_Exception RuntimeError \<and>
   returns (dragLeaveEvent all_calls_raise highlighted_panel \<lparr>leave_accepted = False\<rparr>) \<and>
   styleSheet (fst (state_of (dragLeaveEvent all_calls_raise highlighted_panel \<lparr>leave_accepted = False\<rparr>))) = DefaultStyle \<and>
   returns (dropEvent all_calls_raise highlighted_panel panel_drop) \<and>
   styleSheet (fst (state_of (dropEvent all_calls_raise highlighted_panel panel_drop))) = DefaultStyle"
proof -
  have a: "\<forall>name e. all_calls_raise name = Some e \<longrightarrow> is_Exception e"
    by (simp add: all_calls_raise_def)
  have r: "all_calls_raise ''event.accept'' = Some RuntimeError \<and> is_Exception RuntimeError"
    by (simp add: all_calls_raise_def)
  show ?thesis
    using no_highlight_after_leave_or_drop
        [of highlighted_panel "\<lparr>leave_accepted = False\<rparr>" panel_drop all_calls_raise]
      no_highlight_after_leave_or_drop
        [of highlighted_panel "\<lparr>leave_accepted = False\<rparr>" file_drop no_faults] a r
    by (simp add: highlighted_panel_def)
qed

text \<open>
  Claim C8. A drag-enter event whose payload has no text, or a text other than
  \<^verbatim>\<open>"panel"\<close>, leaves the widget exactly as it was (so its style does not change to
  the highlighted one) and the event is ignored: its accept flag is cleared and its drop
  action is not set to the proposed one. This holds when every Qt call goes through, and
  more generally when the four calls the handler makes on this path do. Whichever Qt calls
  raise, the style is not changed.
\<close>

theorem dragEnterEvent_other_payload:
  assumes "\<not> (hasText (mimeData event) \<and> mime_text (mimeData event) = ''panel'')"
  shows "dragEnterEvent no_faults self event = Return (self, event\<lparr>accepted := False\<rparr>) () \<and>
     styleSheet (fst (state_of (dragEnterEvent qt self event))) = styleSheet self \<and>
     (qt ''event.mimeData'' = None \<and> qt ''QMimeData.hasText'' = None \<and>
      qt ''QMimeData.text'' = None \<and> qt ''event.ignore'' = None \<longrightarrow>
        dragEnterEvent qt self event = Return (self, event\<lparr>accepted := False\<rparr>) ())"
proof (intro conjI impI)
  have body: "\<And>q. dragEnterEvent q self event =
     except_Exception
       (qt_calls q [''event.mimeData'', ''QMimeData.hasText''] (self, event)
          (if hasText (mimeData event) then
             qt_calls q [''QMimeData.text''] (self, event)
               (qt_calls q [''event.ignore''] (self, event) (Return (self, ignore event) ()))
           else qt_calls q [''event.ignore''] (self, event) (Return (self, ignore event) ())))
       (\<lambda>s e. Return (widget_logs (LogError ''Error in drag enter event: '' e) (fst s), snd s) ())"
    using assms unfolding dragEnterEvent_def by auto
  show "dragEnterEvent no_faults self event = Return (self, event\<lparr>accepted := False\<rparr>) ()"
    by (simp add: body qt_calls_no_faults except_Exception_def ignore_def)
  show "styleSheet (fst (state_of (dragEnterEvent qt self event))) = styleSheet self"
    using assms by (rule dragEnterEvent_style)
  assume "qt ''event.mimeData'' = None \<and> qt ''QMimeData.hasText'' = None \<and>
      qt ''QMimeData.text'' = None \<and> qt ''event.ignore'' = None"
  then show "dragEnterEvent qt self event = Return (self, event\<lparr>accepted := False\<rparr>) ()"
    by (simp add: body qt_calls_through except_Exception_def ignore_def)
qed

theorem dragEnterEvent_other_payload_witness:
  "\<not> (hasText (mimeData file_drop) \<and> mime_text (mimeData file_drop) = ''panel'') \<and>
   \<not> (hasText (mimeData no_text_drag) \<and> mime_text (mimeData no_text_drag) = ''panel'') \<and>
   dragEnterEvent no_faults example_panel file_drop = Return (example_panel, file_drop\<lparr>accepted := False\<rparr>) () \<and>
   dragEnterEvent no_faults example_panel no_text_drag = Return (example_panel, no_text_drag\<lparr>accepted := False\<rparr>) () \<and>
   styleSheet example_panel = DefaultStyle \<and>
   styleSheet (fst (state_of (dragEnterEvent all_calls_raise example_panel file_drop))) = DefaultStyle"
proof -
  have f: "\<not> (hasText (mimeData file_drop) \<and> mime_text (mimeData file_drop) = ''panel'')"
    by (simp add: file_drop_def)
  have n: "\<not> (hasText (mimeData no_text_drag) \<and> mime_text (mimeData no_text_drag) = ''panel'')"
    by (simp add: no_text_drag_def)
  show ?thesis
    using dragEnterEvent_other_payload [OF f, of example_panel all_calls_raise]
      dragEnterEvent_other_payload [OF n, of example_panel no_faults] f n
    by (simp add: example_panel_def no_faults_def)
qed

lemma except_Exception_Raise:
  "is_Exception e \<Longrightarrow> except_Exception (Raise s e) handler = handler s e"
  by (simp add: except_Exception_def)

text \<open>
  Claim C9. Whatever exceptions the Qt calls of a handler raise, each of the six event
  handlers returns: no exception leaves a handler. The fault is logged and the widget
  stays as it was at the fault: for each handler, an exception \<open>e\<close> raised by a Qt call
  at its start (for drag-leave, by \<^verbatim>\<open>event.accept()\<close>, after the style was reset)
  gives the widget with one more log entry, the handler's error message with \<open>e\<close>. A
  move with the left button held on a widget that never recorded a press origin raises
  \<^verbatim>\<open>AttributeError\<close> inside the handler and is logged the same way.
\<close>

theorem handlers_never_raise:
  assumes "\<forall>name e. qt name = Some e \<longrightarrow> is_Exception e"
  shows "returns (mousePressEvent qt self mouse) \<and>
   returns (mouseMoveEvent qt h self mouse) \<and>
   returns (dragEnterEvent qt self event) \<and>
   returns (dragLeaveEvent qt self leave) \<and>
   returns (dropEvent qt self event) \<and>
   returns (resizeEvent qt self new_size) \<and>
   (qt ''event.button'' = Some e \<longrightarrow>
      mousePressEvent qt self mouse =
        Return (self\<lparr>widget_log := widget_log self @
                  [LogError ''Error in mouse press event: '' e]\<rparr>) ()) \<and>
   (qt ''event.buttons'' = Some e \<longrightarrow>
      mouseMoveEvent qt h self mouse =
        Return (self\<lparr>widget_log := widget_log self @
                  [LogError ''Error in mouse move event: '' e]\<rparr>) ()) \<and>
   (qt ''event.buttons'' = None \<and> qt ''event.pos'' = None \<and>
    LeftButton \<in> set (buttons mouse) \<and> dragStartPosition self = None \<longrightarrow>
      mouseMoveEvent qt h self mouse =
        Return (self\<lparr>widget_log := widget_log self @
                  [LogError ''Error in mouse move event: ''
                     (AttributeError ''dragStartPosition'')]\<rparr>) ()) \<and>
   (qt ''event.mimeData'' = Some e \<longrightarrow>
      dragEnterEvent qt self event =
        Return (self\<lparr>widget_log := widget_log self @
                  [LogError ''Error in drag enter event: '' e]\<rparr>, event) ()) \<and>
   (qt ''event.accept'' = Some e \<longrightarrow>
      dragLeaveEvent qt self leave =
        Return (self\<lparr>styleSheet := DefaultStyle,
                     widget_log := widget_log self @
                       [LogError ''Error in drag leave event: '' e]\<rparr>, leave) ()) \<and>
   (qt ''event.mimeData'' = Some e \<longrightarrow>
      dropEvent qt self event =
        Return (self\<lparr>styleSheet := DefaultStyle,
                     widget_log := widget_log self @
                       [LogError ''Error in drop event: '' e]\<rparr>, event) ()) \<and>
   (qt ''QWidget.resizeEvent'' = Some e \<longrightarrow>
      resizeEvent qt self new_size =
        Return (self\<lparr>widget_log := widget_log self @
                  [LogError ''Error in resize event: '' e]\<rparr>) ())"
proof (intro conjI impI)
  show "returns (mousePressEvent qt self mouse)"
    using assms by (rule mousePressEvent_returns)
  show "returns (mouseMoveEvent qt h self mouse)"
    using assms by (rule mouseMoveEvent_returns)
  show "returns (dragEnterEvent qt self event)"
    using assms by (rule dragEnterEvent_returns)
  show "returns (dragLeaveEvent qt self leave)"
    using assms by (rule dragLeaveEvent_returns)
  show "returns (dropEvent qt self event)"
    using assms by (rule dropEvent_returns)
  show "returns (resizeEvent qt self new_size)"
    using assms by (rule resizeEvent_returns)
next
  assume f: "qt ''event.button'' = Some e"
  then have "is_Exception e" using assms by blast
  then show "mousePressEvent qt self mouse =
        Return (self\<lparr>widget_log := widget_log self @
                  [LogError ''Error in mouse press event: '' e]\<rparr>) ()"
    by (simp add: mousePressEvent_def qt_calls_hd [of qt "''event.button''" e, OF f] except_Exception_Raise widget_logs_def)
next
  assume f: "qt ''event.buttons'' = Some e"
  then have "is_Exception e" using assms by blast
  then show "mouseMoveEvent qt h self mouse =
        Return (self\<lparr>widget_log := widget_log self @
                  [LogError ''Error in mouse move event: '' e]\<rparr>) ()"
    by (simp add: mouseMoveEvent_def qt_calls_hd [of qt "''event.buttons''" e, OF f] except_Exception_Raise widget_logs_def)
next
  assume a: "qt ''event.buttons'' = None \<and> qt ''event.pos'' = None \<and>
    LeftButton \<in> set (buttons mouse) \<and> dragStartPosition self = None"
  then have b: "qt_calls qt [''event.buttons''] self rest = rest"
    and p: "qt_calls qt [''event.pos''] self rest = rest"
    for rest :: "(DragDropPanelWidget, unit) outcome"
    by (simp_all add: qt_calls_through)
  show "mouseMoveEvent qt h self mouse =
        Return (self\<lparr>widget_log := widget_log self @
                  [LogError ''Error in mouse move event: ''
                     (AttributeError ''dragStartPosition'')]\<rparr>) ()"
    using a by (simp add: mouseMoveEvent_def b p except_Exception_Raise widget_logs_def)
next
  assume f: "qt ''event.mimeData'' = Some e"
  then have "is_Exception e" using assms by blast
  then show "dragEnterEvent qt self event =
        Return (self\<lparr>widget_log := widget_log self @
                  [LogError ''Error in drag enter event: '' e]\<rparr>, event) ()"
    by (simp add: dragEnterEvent_def qt_calls_hd [of qt "''event.mimeData''" e, OF f] except_Exception_Raise widget_logs_def)
next
  assume f: "qt ''event.accept'' = Some e"
  then have "is_Exception e" using assms by blast
  then show "dragLeaveEvent qt self leave =
        Return (self\<lparr>styleSheet := DefaultStyle,
                     widget_log := widget_log self @
                       [LogError ''Error in drag leave event: '' e]\<rparr>, leave) ()"
    by (simp add: dragLeaveEvent_def highlightDropZone_eq qt_calls_hd [of qt "''event.accept''" e, OF f]
        except_Exception_Raise widget_logs_def)
next
  assume f: "qt ''event.mimeData'' = Some e"
  then have "is_Exception e" using assms by blast
  then show "dropEvent qt self event =
        Return (self\<lparr>styleSheet := DefaultStyle,
                     widget_log := widget_log self @
                       [LogError ''Error in drop event: '' e]\<rparr>, event) ()"
    by (simp add: dropEvent_def highlightDropZone_eq qt_calls_hd [of qt "''event.mimeData''" e, OF f]
        except_Exception_Raise widget_logs_def)
next
  assume f: "qt ''QWidget.resizeEvent'' = Some e"
  then have "is_Exception e" using assms by blast
  then show "resizeEvent qt self new_size =
        Return (self\<lparr>widget_log := widget_log self @
                  [LogError ''Error in resize event: '' e]\<rparr>) ()"
    by (simp add: resizeEvent_def qt_calls_hd [of qt "''QWidget.resizeEvent''" e, OF f] except_Exception_Raise widget_logs_def)
qed

theorem handlers_never_raise_witness:
  "is_Exception RuntimeError \<and>
   all_calls_raise ''event.button'' = Some RuntimeError \<and>
   no_faults ''event.buttons'' = None \<and> no_faults ''event.pos'' = None \<and>
   mousePressEvent all_calls_raise example_panel far_move =
     Return (example_panel\<lparr>widget_log := [LogError ''Error in mouse press event: '' RuntimeError]\<rparr>) () \<and>
   dropEvent all_calls_raise example_panel panel_drop =
     Return (example_panel\<lparr>widget_log := [LogError ''Error in drop event: '' RuntimeError]\<rparr>,
             panel_drop) () \<and>
   dragLeaveEvent all_calls_raise highlighted_panel \<lparr>leave_accepted = False\<rparr> =
     Return (highlighted_panel\<lparr>styleSheet := DefaultStyle,
               widget_log := [LogError ''Error in drag leave event: '' RuntimeError]\<rparr>,
             \<lparr>leave_accepted = False\<rparr>) () \<and>
   resizeEvent all_calls_raise example_panel (300, 400) =
     Return (example_panel\<lparr>widget_log := [LogError ''Error in resize event: '' RuntimeError]\<rparr>) () \<and>
   returns (mouseMoveEvent all_calls_raise krita_host example_panel far_move) \<and>
   LeftButton \<in> set (buttons far_move) \<and> dragStartPosition example_panel = None \<and>
   mouseMoveEvent no_faults krita_host example_panel far_move =
     Return (example_panel\<lparr>widget_log :=
               [LogError ''Error in mouse move event: '' (AttributeError ''dragStartPosition'')]\<rparr>) ()"
proof -
  have a: "\<forall>name e. all_calls_raise name = Some e \<longrightarrow> is_Exception e"
    by (simp add: all_calls_raise_def)
  have n: "\<forall>name e. no_faults name = Some e \<longrightarrow> is_Exception e"
    by (simp add: no_faults_def)
  show ?thesis
    using handlers_never_raise [OF a, of example_panel far_move krita_host panel_drop
          "\<lparr>leave_accepted = False\<rparr>" "(300, 400)" RuntimeError]
      handlers_never_raise [OF a, of highlighted_panel far_move krita_host panel_drop
          "\<lparr>leave_accepted = False\<rparr>" "(300, 400)" RuntimeError]
      handlers_never_raise [OF n, of example_panel far_move krita_host panel_drop
          "\<lparr>leave_accepted = False\<rparr>" "(300, 400)" RuntimeError] a n
    by (simp add: all_calls_raise_def no_faults_def far_move_def example_panel_def
        highlighted_panel_def)
qed

section \<open>Adding and removing panel columns\<close>

lemma setGeometry_wid: "setGeometry x y w h c = Inr c' \<Longrightarrow> wid c' = wid c"
  by (auto simp: setGeometry_def split: if_splits)

lemma setGeometry_not_interrupt: "setGeometry x y w h c \<noteq> Inl KeyboardInterrupt"
  by (simp add: setGeometry_def)

lemma position_columns_ids:
  "position_columns cw ht cols = (cols', r) \<Longrightarrow> widget_ids cols' = widget_ids cols"
proof (induction cols arbitrary: cols' r)
  case Nil
  then show ?case by simp
next
  case (Cons c cols)
  obtain idx w where c: "c = (idx, w)" by (cases c)
  show ?case
  proof (cases "setGeometry ((idx - 1) * cw) 0 cw ht w")
    case (Inl e)
    with Cons.prems c show ?thesis by simp
  next
    case (Inr w')
    obtain rest' r' where rest: "position_columns cw ht cols = (rest', r')"
      by (cases "position_columns cw ht cols")
    with Cons.prems c Inr have "cols' = (idx, w') # rest'" by simp
    then show ?thesis
      using Cons.IH [OF rest] setGeometry_wid [OF Inr] c by (simp add: widget_ids_def)
  qed
qed

lemma position_columns_not_interrupt:
  "position_columns cw ht cols = (cols', r) \<Longrightarrow> r \<noteq> Some KeyboardInterrupt"
proof (induction cols arbitrary: cols' r)
  case Nil
  then show ?case by auto
next
  case (Cons c cols)
  obtain idx w where c: "c = (idx, w)" by (cases c)
  show ?case
  proof (cases "setGeometry ((idx - 1) * cw) 0 cw ht w")
    case (Inl e)
    with Cons.prems c setGeometry_not_interrupt [of "(idx - 1) * cw" 0 cw ht w]
    show ?thesis by auto
  next
    case (Inr w')
    obtain rest' r' where rest: "position_columns cw ht cols = (rest', r')"
      by (cases "position_columns cw ht cols")
    with Cons.prems c Inr have "r = r'" by simp
    then show ?thesis using Cons.IH [OF rest] by simp
  qed
qed

lemma updateColumnPositions_returns:
  "\<exists>s. updateColumnPositions h self = Return s () \<and>
       widget_ids (panel_columns s) = widget_ids (panel_columns self) \<and>
       created s = created self \<and> deleted s = deleted self"
proof (cases "lookup_name h extension_module_names ''Krita''")
  case (Inl e)
  then have "e = NameError ''Krita''" by (auto simp: lookup_name_def split: if_splits)
  with Inl show ?thesis
    by (simp add: updateColumnPositions_def except_Exception_def extension_logs_def)
next
  case (Inr u)
  show ?thesis
  proof (cases "activeWindow h")
    case None
    with Inr show ?thesis by (simp add: updateColumnPositions_def except_Exception_def)
  next
    case (Some win)
    obtain sw sh where win: "win = (sw, sh)" by (cases win)
    let ?cw = "sw div max (int (length (panel_columns self))) 1"
    obtain cols' r where pc: "position_columns ?cw sh (panel_columns self) = (cols', r)"
      by (cases "position_columns ?cw sh (panel_columns self)")
    have ids: "widget_ids cols' = widget_ids (panel_columns self)"
      using position_columns_ids [OF pc] .
    show ?thesis
    proof (cases r)
      case None
      with Inr Some win pc ids show ?thesis
        by (simp add: updateColumnPositions_def except_Exception_def)
    next
      case (Some e)
      then have "is_Exception e"
        using position_columns_not_interrupt [OF pc] by (simp add: is_Exception_iff)
      with Inr \<open>activeWindow h = Some win\<close> Some win pc ids show ?thesis
        by (simp add: updateColumnPositions_def except_Exception_def extension_logs_def)
    qed
  qed
qed

lemma widget_ids_dict_setitem:
  "widget_ids (dict_setitem cols k w) = dict_setitem (widget_ids cols) k (wid w)"
  by (induction cols) (auto simp: widget_ids_def)

lemma widget_ids_dict_delitem:
  "widget_ids (dict_delitem cols k) = dict_delitem (widget_ids cols) k"
  by (induction cols) (auto simp: widget_ids_def)

lemma map_fst_widget_ids: "map fst (widget_ids cols) = map fst cols"
  by (induction cols) (auto simp: widget_ids_def)

lemma length_widget_ids: "length (widget_ids cols) = length cols"
  by (simp add: widget_ids_def)

lemma addPanelColumn_full:
  "8 \<le> length (panel_columns self) \<Longrightarrow>
   addPanelColumn h self =
     Return (self\<lparr>extension_log := extension_log self @
                [LogWarning ''Maximum number of panel columns (8) reached'']\<rparr>) False"
  by (simp add: addPanelColumn_def except_Exception_def extension_logs_def)

lemma addPanelColumn_construction_fails:
  assumes "length (panel_columns self) < 8"
    and "construction_fault h = Some e" and "is_Exception e"
  shows "addPanelColumn h self =
     Return (self\<lparr>extension_log := extension_log self @
                [LogError ''Error adding panel column: '' e]\<rparr>) False"
  using assms
  by (simp add: addPanelColumn_def except_Exception_def extension_logs_def Let_def)

lemma addPanelColumn_room:
  assumes "length (panel_columns self) < 8" and "construction_fault h = None"
  shows "\<exists>s. addPanelColumn h self = Return s True \<and>
       widget_ids (panel_columns s) =
         dict_setitem (widget_ids (panel_columns self))
           (int (length (panel_columns self)) + 1) (created self) \<and>
       created s = Suc (created self) \<and> deleted s = deleted self"
proof -
  let ?id = "int (length (panel_columns self)) + 1"
  let ?self1 = "self\<lparr>panel_columns :=
        dict_setitem (panel_columns self) ?id (new_DragDropPanelWidget h (created self)),
      created := Suc (created self)\<rparr>"
  obtain s where s: "updateColumnPositions h ?self1 = Return s ()"
    and ids: "widget_ids (panel_columns s) = widget_ids (panel_columns ?self1)"
    and cr: "created s = created ?self1" and de: "deleted s = deleted ?self1"
    using updateColumnPositions_returns [of h ?self1] by blast
  have "addPanelColumn h self =
      Return (extension_logs (LogInfo (''Added new panel column '' @ py_str_int ?id)) s) True"
    using assms s by (simp add: addPanelColumn_def except_Exception_def Let_def)
  moreover have "widget_ids (panel_columns s) =
      dict_setitem (widget_ids (panel_columns self)) ?id (created self)"
    using ids by (simp add: widget_ids_dict_setitem new_DragDropPanelWidget_def)
  ultimately show ?thesis using cr de by (simp add: extension_logs_def)
qed

lemma addPanelColumn_times_upto:
  assumes "panel_columns self = []" and ok: "construction_fault h = None"
  shows "n \<le> 8 \<Longrightarrow>
     snd (addPanelColumn_times h n self) = replicate n (Some True) \<and>
     map fst (panel_columns (fst (addPanelColumn_times h n self))) = map int [1..<Suc n]"
proof (induction n)
  case 0
  then show ?case using assms(1) by simp
next
  case (Suc n)
  obtain s results where t: "addPanelColumn_times h n self = (s, results)"
    by (cases "addPanelColumn_times h n self")
  from Suc t have res: "results = replicate n (Some True)"
    and keys: "map fst (panel_columns s) = map int [1..<Suc n]" by simp_all
  have "length (panel_columns s) = length (map fst (panel_columns s))" by simp
  also have "\<dots> = length (map int [1..<Suc n])" by (simp only: keys)
  also have "\<dots> = n" by (simp del: upt_Suc)
  finally have len: "length (panel_columns s) = n" .
  with Suc.prems have "length (panel_columns s) < 8" by simp
  then obtain s' where add: "addPanelColumn h s = Return s' True"
    and ids: "widget_ids (panel_columns s') =
       dict_setitem (widget_ids (panel_columns s)) (int (length (panel_columns s)) + 1) (created s)"
    using addPanelColumn_room [of s h, OF _ ok] by blast
  have "int n + 1 \<notin> set (map fst (widget_ids (panel_columns s)))"
    unfolding map_fst_widget_ids keys by auto
  then have "map fst (widget_ids (panel_columns s')) = map int [1..<Suc n] @ [int n + 1]"
    unfolding ids len by (simp only: map_fst_dict_setitem map_fst_widget_ids keys if_False)
  then have "map fst (panel_columns s') = map int [1..<Suc (Suc n)]"
    by (simp add: map_fst_widget_ids)
  moreover have "replicate n (Some True) @ [Some True] = replicate (Suc n) (Some True)"
    by (simp add: replicate_append_same)
  ultimately show ?case using t add res by simp
qed

text \<open>
  Claim C4. With 8 columns in the mapping, \<^verbatim>\<open>addPanelColumn\<close> returns
  \<^verbatim>\<open>False\<close> and changes nothing but the log, in every host. Starting from an empty
  mapping, in a host where a panel widget can be constructed, each of the first eight
  calls returns \<^verbatim>\<open>True\<close>, and after \<open>n\<close> of them the ids are 1 to \<open>n\<close>, so
  1 to 8 after the eighth; the ninth call returns \<^verbatim>\<open>False\<close> and leaves the eight
  columns as they are. (Where the construction raises, every call returns
  \<^verbatim>\<open>False\<close> and adds nothing: \<open>addPanelColumn_construction_fails\<close>.)
\<close>

theorem addPanelColumn_capacity:
  "(length (panel_columns self) = 8 \<longrightarrow>
      addPanelColumn h self =
        Return (self\<lparr>extension_log := extension_log self @
                   [LogWarning ''Maximum number of panel columns (8) reached'']\<rparr>) False) \<and>
   (panel_columns self0 = [] \<and> construction_fault h = None \<longrightarrow>
      (\<forall>n \<le> 8. snd (addPanelColumn_times h n self0) = replicate n (Some True) \<and>
                map fst (panel_columns (fst (addPanelColumn_times h n self0))) = map int [1..<Suc n]) \<and>
      map fst (panel_columns (fst (addPanelColumn_times h 8 self0))) = [1, 2, 3, 4, 5, 6, 7, 8] \<and>
      snd (addPanelColumn_times h 9 self0) = replicate 8 (Some True) @ [Some False] \<and>
      panel_columns (fst (addPanelColumn_times h 9 self0)) =
        panel_columns (fst (addPanelColumn_times h 8 self0)) \<and>
      length (panel_columns (fst (addPanelColumn_times h 9 self0))) = 8)"
proof (intro conjI impI)
  assume "length (panel_columns self) = 8"
  then show "addPanelColumn h self =
        Return (self\<lparr>extension_log := extension_log self @
                   [LogWarning ''Maximum number of panel columns (8) reached'']\<rparr>) False"
    by (simp add: addPanelColumn_full)
next
  assume both: "panel_columns self0 = [] \<and> construction_fault h = None"
  then have e: "panel_columns self0 = []" and ok: "construction_fault h = None" by simp_all
  show "\<forall>n \<le> 8. snd (addPanelColumn_times h n self0) = replicate n (Some True) \<and>
                map fst (panel_columns (fst (addPanelColumn_times h n self0))) = map int [1..<Suc n]"
    using addPanelColumn_times_upto [OF e ok] by blast
  obtain s8 r8 where t8: "addPanelColumn_times h 8 self0 = (s8, r8)"
    by (cases "addPanelColumn_times h 8 self0")
  have r8: "r8 = replicate 8 (Some True)"
    and k8: "map fst (panel_columns s8) = map int [1..<Suc 8]"
    using addPanelColumn_times_upto [OF e ok, of 8] t8 by simp_all
  have "map int [1..<Suc 8] = [1, 2, 3, 4, 5, 6, 7, 8]"
    by (simp add: upt_rec)
  with k8 have keys: "map fst (panel_columns s8) = [1, 2, 3, 4, 5, 6, 7, 8]" by simp
  then have len: "length (panel_columns s8) = 8"
    using length_map [of fst "panel_columns s8"] by simp
  have ninth: "addPanelColumn h s8 =
        Return (s8\<lparr>extension_log := extension_log s8 @
                   [LogWarning ''Maximum number of panel columns (8) reached'']\<rparr>) False"
    using len by (simp add: addPanelColumn_full)
  have nine: "addPanelColumn_times h 9 self0 =
      (state_of (addPanelColumn h s8), r8 @ [value_of (addPanelColumn h s8)])"
    using t8 by (simp add: eval_nat_numeral)
  show "map fst (panel_columns (fst (addPanelColumn_times h 8 self0))) = [1, 2, 3, 4, 5, 6, 7, 8]"
    using t8 keys by simp
  show "snd (addPanelColumn_times h 9 self0) = replicate 8 (Some True) @ [Some False]"
    unfolding nine ninth using r8 by simp
  show "panel_columns (fst (addPanelColumn_times h 9 self0)) =
        panel_columns (fst (addPanelColumn_times h 8 self0))"
    unfolding nine ninth t8 by simp
  show "length (panel_columns (fst (addPanelColumn_times h 9 self0))) = 8"
    unfolding nine ninth using len by simp
qed

text \<open>With an extension whose parent is no widget the construction raises
  \<^verbatim>\<open>TypeError\<close>: the first call already returns \<^verbatim>\<open>False\<close>.\<close>

lemma addPanelColumn_object_parent:
  "addPanelColumn object_parent_host empty_extension =
     Return (empty_extension\<lparr>extension_log :=
               [LogError ''Error adding panel column: '' TypeError]\<rparr>) False"
  using addPanelColumn_construction_fails [of empty_extension object_parent_host TypeError]
  by (simp add: object_parent_host_def empty_extension_def)

theorem addPanelColumn_capacity_witness:
  "panel_columns empty_extension = [] \<and> construction_fault krita_host = None \<and>
   length (panel_columns (fst (addPanelColumn_times krita_host 8 empty_extension))) = 8 \<and>
   map fst (panel_columns (fst (addPanelColumn_times krita_host 8 empty_extension)))
     = [1, 2, 3, 4, 5, 6, 7, 8] \<and>
   snd (addPanelColumn_times krita_host 9 empty_extension) =
     [Some True, Some True, Some True, Some True, Some True, Some True, Some True, Some True,
      Some False] \<and>
   value_of (addPanelColumn krita_host (fst (addPanelColumn_times krita_host 8 empty_extension)))
     = Some False"
proof -
  have e: "panel_columns empty_extension = [] \<and> construction_fault krita_host = None"
    by (simp add: empty_extension_def krita_host_def)
  let ?s8 = "fst (addPanelColumn_times krita_host 8 empty_extension)"
  have k: "map fst (panel_columns ?s8) = [1, 2, 3, 4, 5, 6, 7, 8]"
    using addPanelColumn_capacity [of empty_extension krita_host empty_extension] e by blast
  then have len: "length (panel_columns ?s8) = 8"
    using length_map [of fst "panel_columns ?s8"] by simp
  show ?thesis
    using addPanelColumn_capacity [of ?s8 krita_host empty_extension] e k len
    by (simp add: eval_nat_numeral)
qed

lemma py_max_Max: "ks \<noteq> [] \<Longrightarrow> py_max ks = Inr (Max (set ks))"
proof (cases ks)
  case Nil
  then show "ks \<noteq> [] \<Longrightarrow> ?thesis" by simp
next
  case (Cons k ks')
  have "foldl max k ks' = fold max ks' k"
    by (simp add: foldl_conv_fold max.commute)
  then show ?thesis using Cons Max.set_eq_fold [of k ks'] by simp
qed

lemma map_of_present: "k \<in> fst ` set cols \<Longrightarrow> \<exists>w. map_of cols k = Some w"
  by (cases "map_of cols k") (auto simp: map_of_eq_None_iff)

lemma dict_delitem_distinct:
  "distinct (map fst d) \<Longrightarrow> dict_delitem d k = filter (\<lambda>kv. fst kv \<noteq> k) d"
proof (induction d)
  case Nil
  show ?case by simp
next
  case (Cons kv d)
  obtain k' v' where kv: "kv = (k', v')" by (cases kv)
  show ?case
  proof (cases "k' = k")
    case True
    then have "k \<notin> fst ` set d" using Cons.prems kv by auto
    then have "filter (\<lambda>kv. fst kv \<noteq> k) d = d"
      by (auto simp: filter_id_conv)
    with True kv show ?thesis by simp
  next
    case False
    with Cons kv show ?thesis by simp
  qed
qed

lemma length_dict_delitem:
  "k \<in> fst ` set d \<Longrightarrow> Suc (length (dict_delitem d k)) = length d"
proof (induction d)
  case Nil
  then show ?case by simp
next
  case (Cons kv d)
  obtain k' v' where kv: "kv = (k', v')" by (cases kv)
  show ?case
  proof (cases "k' = k")
    case True
    with kv show ?thesis by simp
  next
    case False
    with Cons.prems kv have "k \<in> fst ` set d" by auto
    with Cons.IH False kv show ?thesis by simp
  qed
qed

lemma removePanelColumn_absent:
  "k \<notin> fst ` set (panel_columns self) \<Longrightarrow>
   \<exists>entry. removePanelColumn h self (Some k) = Return (extension_logs entry self) False"
proof (cases "panel_columns self = []")
  case True
  then have "removePanelColumn h self (Some k) =
      Return (extension_logs (LogWarning ''No panel columns to remove'') self) False"
    by (simp add: removePanelColumn_def except_Exception_def)
  then show ?thesis by blast
next
  case False
  assume "k \<notin> fst ` set (panel_columns self)"
  then have "map_of (panel_columns self) k = None"
    by (simp add: map_of_eq_None_iff)
  with False have "removePanelColumn h self (Some k) =
      Return (extension_logs
                (LogWarning (''Panel column '' @ py_str_int k @ '' not found'')) self) False"
    by (simp add: removePanelColumn_def except_Exception_def)
  then show ?thesis by blast
qed

lemma removePanelColumn_present:
  assumes "map_of (panel_columns self) k = Some w"
    and "arg = Some k \<or> (arg = None \<and> py_max (map fst (panel_columns self)) = Inr k)"
  shows "\<exists>s. removePanelColumn h self arg = Return s True \<and>
       widget_ids (panel_columns s) = dict_delitem (widget_ids (panel_columns self)) k \<and>
       deleted s = deleted self @ [wid w] \<and> created s = created self"
proof -
  let ?self1 = "self\<lparr>panel_columns := dict_delitem (panel_columns self) k,
      deleted := deleted self @ [wid w]\<rparr>"
  obtain s where s: "updateColumnPositions h ?self1 = Return s ()"
    and ids: "widget_ids (panel_columns s) = widget_ids (panel_columns ?self1)"
    and cr: "created s = created ?self1" and de: "deleted s = deleted ?self1"
    using updateColumnPositions_returns [of h ?self1] by blast
  have ne: "panel_columns self \<noteq> []" using assms(1) by auto
  have "removePanelColumn h self arg =
      Return (extension_logs (LogInfo (''Removed panel column '' @ py_str_int k)) s) True"
    using assms ne s by (auto simp: removePanelColumn_def except_Exception_def Let_def)
  then show ?thesis using ids cr de
    by (simp add: extension_logs_def widget_ids_dict_delitem)
qed

text \<open>
  Claim C5. \<^verbatim>\<open>removePanelColumn\<close> with an id that is not in the mapping returns
  \<^verbatim>\<open>False\<close> and leaves the mapping as it is. Called without an id on a mapping that
  is not empty (a dict: its ids are distinct), it returns \<^verbatim>\<open>True\<close>, and what is left
  is every column but the one with the greatest id, each still holding its widget: one
  entry less.
\<close>

theorem removePanelColumn_cases:
  "(k \<notin> fst ` set (panel_columns self) \<longrightarrow>
      value_of (removePanelColumn h self (Some k)) = Some False \<and>
      panel_columns (state_of (removePanelColumn h self (Some k))) = panel_columns self) \<and>
   (panel_columns self \<noteq> [] \<and> distinct (map fst (panel_columns self)) \<longrightarrow>
      value_of (removePanelColumn h self None) = Some True \<and>
      widget_ids (panel_columns (state_of (removePanelColumn h self None))) =
        filter (\<lambda>kv. fst kv \<noteq> Max (fst ` set (panel_columns self)))
          (widget_ids (panel_columns self)) \<and>
      Suc (length (panel_columns (state_of (removePanelColumn h self None)))) =
        length (panel_columns self))"
proof (intro conjI impI)
  assume "k \<notin> fst ` set (panel_columns self)"
  then obtain entry where
    r: "removePanelColumn h self (Some k) = Return (extension_logs entry self) False"
    using removePanelColumn_absent by blast
  show "value_of (removePanelColumn h self (Some k)) = Some False"
    and "panel_columns (state_of (removePanelColumn h self (Some k))) = panel_columns self"
    unfolding r by (simp_all add: extension_logs_def)
next
  assume a: "panel_columns self \<noteq> [] \<and> distinct (map fst (panel_columns self))"
  let ?m = "Max (fst ` set (panel_columns self))"
  have mx: "py_max (map fst (panel_columns self)) = Inr ?m"
    using a py_max_Max [of "map fst (panel_columns self)"] by simp
  have "finite (fst ` set (panel_columns self))" by simp
  moreover have "fst ` set (panel_columns self) \<noteq> {}" using a by simp
  ultimately have "?m \<in> fst ` set (panel_columns self)"
    by (rule Max_in)
  then have "\<exists>w. map_of (panel_columns self) ?m = Some w"
    by (rule map_of_present)
  then obtain w where w: "map_of (panel_columns self) ?m = Some w" ..
  have "None = Some ?m \<or> (None = None \<and> py_max (map fst (panel_columns self)) = Inr ?m)"
    using mx by simp
  from removePanelColumn_present [OF w this, of h]
  obtain s where r: "removePanelColumn h self None = Return s True"
    and ids: "widget_ids (panel_columns s) = dict_delitem (widget_ids (panel_columns self)) ?m"
    by (elim exE conjE)
  have d: "distinct (map fst (widget_ids (panel_columns self)))"
    using a by (simp add: map_fst_widget_ids)
  have "set (map fst (widget_ids (panel_columns self))) = set (map fst (panel_columns self))"
    by (simp only: map_fst_widget_ids)
  then have in_ids: "?m \<in> fst ` set (widget_ids (panel_columns self))"
    using \<open>?m \<in> fst ` set (panel_columns self)\<close> by simp
  show "value_of (removePanelColumn h self None) = Some True"
    unfolding r by simp
  show "widget_ids (panel_columns (state_of (removePanelColumn h self None))) =
        filter (\<lambda>kv. fst kv \<noteq> ?m) (widget_ids (panel_columns self))"
    unfolding r using ids dict_delitem_distinct [OF d, of ?m] by simp
  have "Suc (length (widget_ids (panel_columns s))) = length (widget_ids (panel_columns self))"
    unfolding ids using length_dict_delitem [OF in_ids] .
  then show "Suc (length (panel_columns (state_of (removePanelColumn h self None)))) =
        length (panel_columns self)"
    unfolding r by (simp add: length_widget_ids)
qed

theorem removePanelColumn_cases_witness:
  "7 \<notin> fst ` set (panel_columns gap_extension) \<and>
   value_of (removePanelColumn krita_host gap_extension (Some 7)) = Some False \<and>
   panel_columns (state_of (removePanelColumn krita_host gap_extension (Some 7)))
     = panel_columns gap_extension \<and>
   panel_columns gap_extension \<noteq> [] \<and> distinct (map fst (panel_columns gap_extension)) \<and>
   value_of (removePanelColumn krita_host gap_extension None) = Some True \<and>
   widget_ids (panel_columns (state_of (removePanelColumn krita_host gap_extension None)))
     = [(1, 0), (2, 1)]"
proof -
  have a: "7 \<notin> fst ` set (panel_columns gap_extension)"
    by (simp add: gap_extension_def)
  have b: "panel_columns gap_extension \<noteq> [] \<and> distinct (map fst (panel_columns gap_extension))"
    by (simp add: gap_extension_def)
  have m: "Max (fst ` set (panel_columns gap_extension)) = 3"
    by (simp add: gap_extension_def)
  have w: "widget_ids (panel_columns gap_extension) = [(1, 0), (2, 1), (3, 2)]"
    by (simp add: gap_extension_def widget_ids_def column_def example_panel_def)
  show ?thesis
    using removePanelColumn_cases [of 7 gap_extension krita_host] a b
    by (simp add: m w)
qed

lemma map_of_dict_setitem: "map_of (dict_setitem d k v) = (map_of d)(k \<mapsto> v)"
  by (induction d) (auto simp: fun_eq_iff)

text \<open>
  Claim C10. With fewer than 8 columns, in a host where a panel widget can be
  constructed, \<^verbatim>\<open>addPanelColumn\<close> returns \<^verbatim>\<open>True\<close> and maps the id
  (number of entries) + 1 to the widget it has just constructed, all other ids keeping
  their widgets. When that id is already in the mapping (ids with a gap, such as 1 and 3),
  the ids and the number of columns are what they were: the new widget has taken the place
  of the one the id held.
\<close>

theorem addPanelColumn_reuses_id:
  assumes "length (panel_columns self) < 8" and "construction_fault h = None"
  shows "value_of (addPanelColumn h self) = Some True \<and>
     map_of (widget_ids (panel_columns (state_of (addPanelColumn h self)))) =
       (map_of (widget_ids (panel_columns self)))
         (int (length (panel_columns self)) + 1 \<mapsto> created self) \<and>
     (int (length (panel_columns self)) + 1 \<in> fst ` set (panel_columns self) \<longrightarrow>
        map fst (panel_columns (state_of (addPanelColumn h self))) = map fst (panel_columns self) \<and>
        length (panel_columns (state_of (addPanelColumn h self))) = length (panel_columns self))"
proof -
  let ?id = "int (length (panel_columns self)) + 1"
  from addPanelColumn_room [OF assms]
  obtain s where r: "addPanelColumn h self = Return s True"
    and ids: "widget_ids (panel_columns s) =
       dict_setitem (widget_ids (panel_columns self)) ?id (created self)"
    by (elim exE conjE)
  have m: "map_of (widget_ids (panel_columns s)) =
      (map_of (widget_ids (panel_columns self)))(?id \<mapsto> created self)"
    unfolding ids by (rule map_of_dict_setitem)
  have keep: "map fst (panel_columns s) = map fst (panel_columns self) \<and>
      length (panel_columns s) = length (panel_columns self)"
    if present: "?id \<in> fst ` set (panel_columns self)"
  proof -
    have "?id \<in> set (map fst (widget_ids (panel_columns self)))"
      using present by (simp add: map_fst_widget_ids)
    then have "map fst (dict_setitem (widget_ids (panel_columns self)) ?id (created self)) =
        map fst (widget_ids (panel_columns self))"
      by (simp only: map_fst_dict_setitem if_True)
    then have k: "map fst (panel_columns s) = map fst (panel_columns self)"
      using ids map_fst_widget_ids [of "panel_columns s"] map_fst_widget_ids [of "panel_columns self"]
      by simp
    from k have "length (panel_columns s) = length (panel_columns self)"
      by (rule map_eq_imp_length_eq)
    with k show ?thesis by simp
  qed
  show ?thesis unfolding r using m keep by simp
qed

theorem addPanelColumn_reuses_id_witness:
  "construction_fault krita_host = None \<and>
   widget_ids (panel_columns (state_of (removePanelColumn krita_host gap_extension (Some 2))))
     = [(1, 0), (3, 2)] \<and>
   created (state_of (removePanelColumn krita_host gap_extension (Some 2))) = 3 \<and>
   value_of (addPanelColumn krita_host
     (state_of (removePanelColumn krita_host gap_extension (Some 2)))) = Some True \<and>
   map fst (panel_columns (state_of (addPanelColumn krita_host
     (state_of (removePanelColumn krita_host gap_extension (Some 2)))))) = [1, 3] \<and>
   map_of (widget_ids (panel_columns (state_of (addPanelColumn krita_host
     (state_of (removePanelColumn krita_host gap_extension (Some 2))))))) 3 = Some 3"
proof -
  let ?s1 = "state_of (removePanelColumn krita_host gap_extension (Some 2))"
  have w: "map_of (panel_columns gap_extension) 2 = Some (column 1)"
    by (simp add: gap_extension_def)
  have g: "widget_ids (panel_columns gap_extension) = [(1, 0), (2, 1), (3, 2)]"
    by (simp add: gap_extension_def widget_ids_def column_def example_panel_def)
  from removePanelColumn_present [OF w, of "Some 2" krita_host]
  obtain s where r: "removePanelColumn krita_host gap_extension (Some 2) = Return s True"
    and ids: "widget_ids (panel_columns s) =
        dict_delitem (widget_ids (panel_columns gap_extension)) 2"
    and cr: "created s = created gap_extension"
    by auto
  have ids1: "widget_ids (panel_columns ?s1) = [(1, 0), (3, 2)]"
    unfolding r using ids g by simp
  have cr1: "created ?s1 = 3"
    unfolding r using cr by (simp add: gap_extension_def)
  have "length (widget_ids (panel_columns ?s1)) = 2"
    by (simp only: ids1) simp
  then have len: "length (panel_columns ?s1) = 2"
    by (simp add: length_widget_ids)
  have "map fst (widget_ids (panel_columns ?s1)) = [1, 3]"
    by (simp only: ids1) simp
  then have keys: "map fst (panel_columns ?s1) = [1, 3]"
    by (simp add: map_fst_widget_ids)
  have lt: "length (panel_columns ?s1) < 8" using len by simp
  have ok: "construction_fault krita_host = None" by (simp add: krita_host_def)
  have "set (map fst (panel_columns ?s1)) = {1, 3}"
    by (simp only: keys) auto
  then have present: "int (length (panel_columns ?s1)) + 1 \<in> fst ` set (panel_columns ?s1)"
    using len by simp
  show ?thesis
    using addPanelColumn_reuses_id [OF lt ok] present ids1 cr1 keys len ok
    by simp
qed

end
